theory Spec2Isabelle
  imports Complex_Main
begin

section \<open>The FunFood backend (Appifyours/backend/server.js)\<close>

text \<open>
  The server is an Express application over two Mongoose collections, \<open>Product\<close> and
  \<open>User\<close>. Each route handler is embedded as a function from the state of the two
  collections to the new state and the HTTP response. What the handlers take from outside
  the file is passed in explicitly:
  \<^item> \<open>lib\<close>: the library functions the handlers call and whose code is not in the
    repository (Mongoose's casts, MongoDB's regular expression matcher, JavaScript's
    arithmetic on doubles, \<open>parseFloat\<close>, the text of a number and of an error's
    message);
  \<^item> \<open>env\<close>: what one request reads from its environment (the clock, the identifiers
    the driver generates for new documents).
  A JavaScript Number is a double. The numbers of a JSON value and the prices of the
  products are finite: they are carried as real numbers (the model does not single out
  the representable ones; a numeral of a JSON text beyond the range of the doubles is left
  out). The numbers of a cart line and of an order come out of arithmetic: they are values
  of type \<open>double\<close>, finite or one of the two infinities, and NaN is the value \<open>None\<close>
  of \<open>double option\<close>. Addition and multiplication of doubles round, overflow to an
  infinity and yield NaN: they are the functions \<open>plus\<close> and \<open>times\<close> of \<open>lib\<close>, not
  the exact operations of the reals.
  The body of a cart request is untyped: each property the handler reads is any JSON
  value, or \<open>undefined\<close>. The body of a registration is taken at the types the schema
  declares for its fields. The payload of the remote server is untyped JSON, as the
  handler receives it.
  The \<open>_id\<close> that Mongoose adds to each element of an embedded array is not modelled.

  The database is taken to be reachable, the documents in it to be valid for their schemas,
  and each request to run alone from its first read to its last write: the errors a query
  or a save raises are the cast errors and the validation errors that the parameters and
  the values assigned by the handler give rise to. The middleware in
  front of the handlers (\<open>cors\<close>, \<open>express.json\<close>) and the answers Express gives by
  itself are not modelled.
\<close>

subsection \<open>Values\<close>

type_synonym number = real
type_synonym objectId = string
type_synonym date = nat

datatype json =
    JNull
  | JBool bool
  | JNum number
  | JStr string
  | JArr "json list"
  | JObj "(string \<times> json) list"

datatype error =
    CastError string string
  | ValidationError "string list"
  | MongoError string
  | TypeError

text \<open>
  What a path of a stored document holds, as the getter returns it: \<open>undefined\<close> when
  the path is not set, \<open>null\<close>, or a value of the type the schema declares.
\<close>

datatype 'a stored = Unset | Null | Val 'a

text \<open>A double that is not NaN.\<close>

datatype double = Finite number | PosInfinity | NegInfinity

text \<open>A value read from a JSON document is \<open>None\<close> where JavaScript has \<open>undefined\<close>.\<close>

fun truthy :: "json option \<Rightarrow> bool" where
  "truthy None = False"
| "truthy (Some JNull) = False"
| "truthy (Some (JBool b)) = b"
| "truthy (Some (JNum n)) = (n \<noteq> 0)"
| "truthy (Some (JStr s)) = (s \<noteq> [])"
| "truthy (Some (JArr xs)) = True"
| "truthy (Some (JObj kvs)) = True"

text \<open>
  Property access \<open>v.k\<close> for the property names the handlers read (none of them is
  defined on a prototype): a TypeError on \<open>undefined\<close> and \<open>null\<close>, the member of an
  object (the last one, where \<open>JSON.parse\<close> met the key twice), \<open>undefined\<close> otherwise.
\<close>

fun getProp :: "json option \<Rightarrow> string \<Rightarrow> error + json option" where
  "getProp None k = Inl TypeError"
| "getProp (Some JNull) k = Inl TypeError"
| "getProp (Some (JObj kvs)) k = Inr (map_of (rev kvs) k)"
| "getProp (Some v) k = Inr None"

text \<open>The operator \<open>a || b\<close> on values.\<close>

definition orElse :: "json option \<Rightarrow> json option \<Rightarrow> json option" where
  "orElse a b = (if truthy a then a else b)"

text \<open>Decimal digits of a natural number, as \<open>'ORDER_' + Date.now()\<close> prints the clock.\<close>

definition digit :: "nat \<Rightarrow> char" where
  "digit d = ''0123456789'' ! d"

function showNat :: "nat \<Rightarrow> string" where
  "showNat n = (if n < 10 then [digit n] else showNat (n div 10) @ [digit (n mod 10)])"
  by pat_completeness auto
termination
  by (relation "measure (\<lambda>n. n)") auto

declare showNat.simps [simp del]

subsection \<open>Documents (productSchema, userSchema)\<close>

record product =
  p_id :: objectId
  p_name :: string
  p_price :: number
  p_description :: "string option"
  p_image :: "string option"
  p_category :: "string option"
  p_inStock :: bool
  p_createdAt :: date

record address =
  street :: string
  city :: string
  state :: string
  zipCode :: string

text \<open>An element of \<open>orders[].products\<close>.\<close>

record order_line =
  l_productId :: "string stored"
  l_name :: "string stored"
  l_price :: "double stored"
  l_quantity :: "double stored"

text \<open>The object \<open>order\<close> that the order route builds and returns.\<close>

record order =
  orderId :: string
  products :: "order_line list"
  total :: double
  status :: string

text \<open>An element of \<open>orders\<close>: the object pushed, with the schema's default \<open>createdAt\<close>.\<close>

record order_doc =
  o_order :: order
  o_createdAt :: date

text \<open>An element of \<open>cart\<close>.\<close>

record cart_item =
  c_productId :: "string stored"
  c_name :: "string stored"
  c_price :: "double stored"
  c_quantity :: "double stored"
  c_addedAt :: date

record user =
  u_id :: objectId
  u_name :: string
  u_email :: string
  u_phone :: string
  u_address :: address
  u_orders :: "order_doc list"
  u_cart :: "cart_item list"
  u_createdAt :: date

text \<open>The two collections, each in its natural order.\<close>

record store =
  Product :: "product list"
  User :: "user list"

subsection \<open>Library and environment\<close>

record lib =
  castObjectId :: "string \<Rightarrow> objectId option"
  regexp :: "string \<Rightarrow> string \<Rightarrow> (string \<Rightarrow> bool) option"
  parseFloat :: "json option \<Rightarrow> number option"
  castString :: "json \<Rightarrow> string option"
  castNumber :: "json \<Rightarrow> double stored option"
  plus :: "double \<Rightarrow> double \<Rightarrow> double option"
  times :: "double \<Rightarrow> double \<Rightarrow> double option"
  numberToString :: "double \<Rightarrow> string"
  message :: "error \<Rightarrow> string"

text \<open>
  \<^item> \<open>castObjectId L s\<close>: the ObjectId a route parameter denotes, \<open>None\<close> when the
    parameter is malformed (Mongoose then rejects the query with a CastError);
  \<^item> \<open>regexp L pattern options\<close>: the matcher of a \<open>$regex\<close> condition, \<open>None\<close> when
    the pattern does not compile (the query is then rejected);
  \<^item> \<open>parseFloat L v\<close>: \<open>None\<close> for NaN;
  \<^item> \<open>castString L v\<close>: Mongoose's cast to String of a value that is neither a string
    nor null, \<open>None\<close> when it raises a CastError;
  \<^item> \<open>castNumber L v\<close>: Mongoose's cast to Number of a value that is neither a number
    nor null (a string, a boolean, an array, an object), \<open>None\<close> when it raises a
    CastError;
  \<^item> \<open>plus L x y\<close>, \<open>times L x y\<close>: the sum and the product of two doubles, as the
    engine computes them (rounded, or an infinity), \<open>None\<close> when the result is NaN;
  \<^item> \<open>numberToString L x\<close>: the text of a number, as string concatenation prints it;
  \<^item> \<open>message L e\<close>: \<open>error.message\<close>.
\<close>

record env =
  now :: date
  defaultNow :: date
  newId :: "nat \<Rightarrow> objectId"

text \<open>
  \<open>now\<close> is what \<open>Date.now()\<close> and \<open>new Date()\<close> return in the handler, \<open>defaultNow\<close>
  what the schema default \<open>Date.now\<close> returns, \<open>newId k\<close> the \<open>_id\<close> of the \<open>k\<close>-th
  document created by the request.
\<close>

subsection \<open>Responses\<close>

record features =
  searchEnabled :: bool
  cartEnabled :: bool
  userRegistrationEnabled :: bool
  orderTrackingEnabled :: bool

record config =
  cfg_adminId :: string
  cfg_shopName :: string
  cfg_lastUpdated :: date
  cfg_features :: features

record shop_data =
  sd_shopName :: "json option"
  sd_appName :: "json option"
  sd_gstNumber :: "json option"
  sd_products :: json
  sd_lastUpdated :: "json option"

datatype payload =
    ProductList "product list"
  | ProductDoc product
  | UserDoc user
  | CartData "cart_item list"
  | OrderData order
  | OrderList "order_doc list"
  | ShopData shop_data
  | RemoteData "json option"
  | ConfigData config

text \<open>
  The JSON bodies the handlers send: \<open>{success: true, data}\<close>,
  \<open>{success: false, error}\<close> and the health route's \<open>{status, timestamp}\<close>.
  A timestamp that a handler renders with \<open>toISOString\<close> is carried as the instant.
\<close>

datatype body =
    Success payload
  | Failure string
  | Liveness string date

record response =
  code :: nat
  content :: body

text \<open>\<open>res.json(b)\<close> answers with status 200, \<open>res.status(c).json(b)\<close> with \<open>c\<close>.\<close>

definition json_ok :: "payload \<Rightarrow> response" where
  "json_ok d = \<lparr>code = 200, content = Success d\<rparr>"

definition json_fail :: "nat \<Rightarrow> string \<Rightarrow> response" where
  "json_fail c m = \<lparr>code = c, content = Failure m\<rparr>"

subsection \<open>Collection operations\<close>

text \<open>\<open>Model.findById(id)\<close>: the cast of the parameter, then the first document with that id.\<close>

definition findById :: "lib \<Rightarrow> ('d \<Rightarrow> objectId) \<Rightarrow> 'd list \<Rightarrow> string \<Rightarrow> error + 'd option" where
  "findById L idf docs i =
     (case castObjectId L i of
        None \<Rightarrow> Inl (CastError i ''_id'')
      | Some oid \<Rightarrow> Inr (find (\<lambda>d. idf d = oid) docs))"

text \<open>\<open>user.save()\<close> of a loaded document: the stored document with that \<open>_id\<close> is replaced.\<close>

fun saveUser :: "user \<Rightarrow> user list \<Rightarrow> user list" where
  "saveUser u' [] = []"
| "saveUser u' (u # us) = (if u_id u = u_id u' then u' # us else u # saveUser u' us)"

text \<open>The \<open>required\<close> validator of a String path fails on the empty string.\<close>

definition validateUser :: "user \<Rightarrow> string list" where
  "validateUser u =
     (if u_name u = [] then [''name''] else []) @ (if u_email u = [] then [''email''] else [])"

subsection \<open>Catalog routes\<close>

text \<open>GET /api/products\<close>

definition listAvailable :: "store \<Rightarrow> response" where
  "listAvailable S = json_ok (ProductList (filter p_inStock (Product S)))"

text \<open>GET /api/products/:id\<close>

definition getById :: "lib \<Rightarrow> store \<Rightarrow> string \<Rightarrow> response" where
  "getById L S i =
     (case findById L p_id (Product S) i of
        Inl e \<Rightarrow> json_fail 500 (message L e)
      | Inr None \<Rightarrow> json_fail 404 ''Product not found''
      | Inr (Some p) \<Rightarrow> json_ok (ProductDoc p))"

text \<open>
  GET /api/products/search/:query. A \<open>$regex\<close> condition holds of a document only when
  the field is present.
\<close>

definition matchField :: "(string \<Rightarrow> bool) \<Rightarrow> string option \<Rightarrow> bool" where
  "matchField m f = (case f of None \<Rightarrow> False | Some s \<Rightarrow> m s)"

definition searchFilter :: "(string \<Rightarrow> bool) \<Rightarrow> product \<Rightarrow> bool" where
  "searchFilter m p \<longleftrightarrow>
     (m (p_name p) \<or> matchField m (p_description p) \<or> matchField m (p_category p))
     \<and> p_inStock p"

definition search :: "lib \<Rightarrow> store \<Rightarrow> string \<Rightarrow> response" where
  "search L S query =
     (case regexp L query ''i'' of
        None \<Rightarrow> json_fail 500 (message L (MongoError query))
      | Some m \<Rightarrow> json_ok (ProductList (filter (searchFilter m) (Product S))))"

subsection \<open>Account routes\<close>

record register_body =
  r_name :: string
  r_email :: string
  r_phone :: string
  r_address :: address

text \<open>POST /api/users/register\<close>

definition register :: "lib \<Rightarrow> env \<Rightarrow> store \<Rightarrow> register_body \<Rightarrow> store \<times> response" where
  "register L E S b =
     (case find (\<lambda>u. u_email u = r_email b) (User S) of
        Some existingUser \<Rightarrow> (S, json_fail 400 ''User already exists'')
      | None \<Rightarrow>
          (let user = \<lparr>u_id = newId E 0, u_name = r_name b, u_email = r_email b,
                       u_phone = r_phone b, u_address = r_address b, u_orders = [],
                       u_cart = [], u_createdAt = defaultNow E\<rparr>
           in case validateUser user of
                [] \<Rightarrow> (S\<lparr>User := User S @ [user]\<rparr>, json_ok (UserDoc user))
              | p # ps \<Rightarrow> (S, json_fail 500 (message L (ValidationError (p # ps))))))"

text \<open>GET /api/users/:id\<close>

definition getProfile :: "lib \<Rightarrow> store \<Rightarrow> string \<Rightarrow> response" where
  "getProfile L S i =
     (case findById L u_id (User S) i of
        Inl e \<Rightarrow> json_fail 500 (message L e)
      | Inr None \<Rightarrow> json_fail 404 ''User not found''
      | Inr (Some u) \<Rightarrow> json_ok (UserDoc u))"

subsection \<open>Cart routes\<close>

text \<open>The four properties that the handler reads from \<open>req.body\<close>, as they came.\<close>

record cart_body =
  b_productId :: "json option"
  b_name :: "json option"
  b_price :: "json option"
  b_quantity :: "json option"

text \<open>
  \<open>item.productId === productId\<close>: the stored id, which is \<open>undefined\<close>, \<open>null\<close> or a
  string, against the value of the body. A number, a boolean, an array or an object is
  identical to none of these.
\<close>

fun sameId :: "string stored \<Rightarrow> json option \<Rightarrow> bool" where
  "sameId Unset None = True"
| "sameId Null (Some JNull) = True"
| "sameId (Val s) (Some (JStr t)) = (s = t)"
| "sameId f v = False"

text \<open>
  The casts of a value assigned to a String path and to a Number path of a cart line:
  \<open>undefined\<close>, \<open>null\<close> and a value of the type of the path are stored as they are,
  another value goes through Mongoose's cast, which may fail (\<open>Inl\<close>).
\<close>

fun castStringPath :: "lib \<Rightarrow> json option \<Rightarrow> unit + string stored" where
  "castStringPath L None = Inr Unset"
| "castStringPath L (Some JNull) = Inr Null"
| "castStringPath L (Some (JStr s)) = Inr (Val s)"
| "castStringPath L (Some v) = (case castString L v of None \<Rightarrow> Inl () | Some s \<Rightarrow> Inr (Val s))"

fun castNumberPath :: "lib \<Rightarrow> json option \<Rightarrow> unit + double stored" where
  "castNumberPath L None = Inr Unset"
| "castNumberPath L (Some JNull) = Inr Null"
| "castNumberPath L (Some (JNum x)) = Inr (Val (Finite x))"
| "castNumberPath L (Some v) = (case castNumber L v of None \<Rightarrow> Inl () | Some q \<Rightarrow> Inr q)"

text \<open>
  The number that arithmetic makes of a stored value and of a primitive value of the body
  (\<open>undefined\<close> is NaN, \<open>null\<close> is 0, \<open>true\<close> is 1), and the text that concatenation
  makes of them (an array is the texts of its elements joined by commas, with nothing for
  \<open>null\<close>).
\<close>

fun storedNumber :: "double stored \<Rightarrow> double option" where
  "storedNumber Unset = None"
| "storedNumber Null = Some (Finite 0)"
| "storedNumber (Val x) = Some x"

fun primitiveNumber :: "json option \<Rightarrow> double option" where
  "primitiveNumber (Some JNull) = Some (Finite 0)"
| "primitiveNumber (Some (JBool b)) = Some (Finite (if b then 1 else 0))"
| "primitiveNumber (Some (JNum x)) = Some (Finite x)"
| "primitiveNumber v = None"

fun storedText :: "lib \<Rightarrow> double stored \<Rightarrow> string" where
  "storedText L Unset = ''undefined''"
| "storedText L Null = ''null''"
| "storedText L (Val x) = numberToString L x"

fun joinComma :: "string list \<Rightarrow> string" where
  "joinComma [] = []"
| "joinComma [s] = s"
| "joinComma (s # t # ss) = s @ '','' @ joinComma (t # ss)"

fun jsToString :: "lib \<Rightarrow> json \<Rightarrow> string" where
  "jsToString L JNull = ''null''"
| "jsToString L (JBool b) = (if b then ''true'' else ''false'')"
| "jsToString L (JNum x) = numberToString L (Finite x)"
| "jsToString L (JStr s) = s"
| "jsToString L (JArr xs) = joinComma (map (\<lambda>x. if x = JNull then [] else jsToString L x) xs)"
| "jsToString L (JObj kvs) = ''[object Object]''"

text \<open>
  The sum and the product of two values each of which is a double or NaN (\<open>None\<close>):
  NaN when one of the two is.
\<close>

fun plusN :: "lib \<Rightarrow> double option \<Rightarrow> double option \<Rightarrow> double option" where
  "plusN L (Some x) (Some y) = plus L x y"
| "plusN L a b = None"

fun timesN :: "lib \<Rightarrow> double option \<Rightarrow> double option \<Rightarrow> double option" where
  "timesN L (Some x) (Some y) = times L x y"
| "timesN L a b = None"

text \<open>
  \<open>existingItem.quantity + quantity\<close>: a concatenation when the value of the body is a
  string, an array or an object, the sum of two doubles otherwise, which is NaN when one
  of the two is no number.
\<close>

datatype added = AddedNumber double | AddedText string | AddedNaN

fun addValues :: "lib \<Rightarrow> double stored \<Rightarrow> json option \<Rightarrow> added" where
  "addValues L q (Some (JStr s)) = AddedText (storedText L q @ s)"
| "addValues L q (Some (JArr xs)) = AddedText (storedText L q @ jsToString L (JArr xs))"
| "addValues L q (Some (JObj kvs)) = AddedText (storedText L q @ jsToString L (JObj kvs))"
| "addValues L q v =
     (case plusN L (storedNumber q) (primitiveNumber v) of
        Some x \<Rightarrow> AddedNumber x
      | None \<Rightarrow> AddedNaN)"

text \<open>The assignment of that result to the Number path \<open>quantity\<close>: NaN fails the cast.\<close>

fun castAdded :: "lib \<Rightarrow> added \<Rightarrow> unit + double stored" where
  "castAdded L (AddedNumber x) = Inr (Val x)"
| "castAdded L (AddedText s) = castNumberPath L (Some (JStr s))"
| "castAdded L AddedNaN = Inl ()"

text \<open>
  \<open>existingItem.quantity += quantity\<close>, where \<open>existingItem\<close> is the first element of
  the cart that \<open>find\<close> accepts: that element is updated in place. The result is
  \<open>Inl\<close>, with the paths at fault, when a cast fails: \<open>user.save()\<close> is then rejected.
\<close>

fun addQuantity :: "lib \<Rightarrow> cart_body \<Rightarrow> cart_item list \<Rightarrow> string list + cart_item list" where
  "addQuantity L b [] = Inr []"
| "addQuantity L b (item # rest) =
     (if sameId (c_productId item) (b_productId b)
      then (case castAdded L (addValues L (c_quantity item) (b_quantity b)) of
              Inl _ \<Rightarrow> Inl [''quantity'']
            | Inr q \<Rightarrow> Inr (item\<lparr>c_quantity := q\<rparr> # rest))
      else (case addQuantity L b rest of
              Inl e \<Rightarrow> Inl e
            | Inr rest' \<Rightarrow> Inr (item # rest')))"

text \<open>The line that \<open>user.cart.push({ productId, name, price, quantity })\<close> appends.\<close>

definition pathFailed :: "string \<Rightarrow> unit + 'a \<Rightarrow> string list" where
  "pathFailed path r = (case r of Inl _ \<Rightarrow> [path] | Inr _ \<Rightarrow> [])"

definition newItem :: "lib \<Rightarrow> env \<Rightarrow> cart_body \<Rightarrow> string list + cart_item" where
  "newItem L E b =
     (case (castStringPath L (b_productId b), castStringPath L (b_name b),
            castNumberPath L (b_price b), castNumberPath L (b_quantity b)) of
        (Inr productId, Inr name, Inr price, Inr quantity) \<Rightarrow>
          Inr \<lparr>c_productId = productId, c_name = name, c_price = price, c_quantity = quantity,
               c_addedAt = defaultNow E\<rparr>
      | _ \<Rightarrow>
          Inl (pathFailed ''productId'' (castStringPath L (b_productId b))
               @ pathFailed ''name'' (castStringPath L (b_name b))
               @ pathFailed ''price'' (castNumberPath L (b_price b))
               @ pathFailed ''quantity'' (castNumberPath L (b_quantity b))))"

definition addToCart :: "lib \<Rightarrow> env \<Rightarrow> cart_body \<Rightarrow> cart_item list \<Rightarrow> string list + cart_item list" where
  "addToCart L E b cart =
     (case find (\<lambda>item. sameId (c_productId item) (b_productId b)) cart of
        Some existingItem \<Rightarrow> addQuantity L b cart
      | None \<Rightarrow> (case newItem L E b of Inl e \<Rightarrow> Inl e | Inr item \<Rightarrow> Inr (cart @ [item])))"

text \<open>
  POST /api/users/:id/cart. When a cast has failed, \<open>user.save()\<close> is rejected with a
  ValidationError and nothing is written.
\<close>

definition addItem :: "lib \<Rightarrow> env \<Rightarrow> store \<Rightarrow> string \<Rightarrow> cart_body \<Rightarrow> store \<times> response" where
  "addItem L E S i b =
     (case findById L u_id (User S) i of
        Inl e \<Rightarrow> (S, json_fail 500 (message L e))
      | Inr None \<Rightarrow> (S, json_fail 404 ''User not found'')
      | Inr (Some u) \<Rightarrow>
          (case addToCart L E b (u_cart u) of
             Inl paths \<Rightarrow> (S, json_fail 500 (message L (ValidationError paths)))
           | Inr cart \<Rightarrow>
               (let u' = u\<lparr>u_cart := cart\<rparr>
                in (S\<lparr>User := saveUser u' (User S)\<rparr>, json_ok (CartData (u_cart u'))))))"

text \<open>GET /api/users/:id/cart\<close>

definition getCart :: "lib \<Rightarrow> store \<Rightarrow> string \<Rightarrow> response" where
  "getCart L S i =
     (case findById L u_id (User S) i of
        Inl e \<Rightarrow> json_fail 500 (message L e)
      | Inr None \<Rightarrow> json_fail 404 ''User not found''
      | Inr (Some u) \<Rightarrow> json_ok (CartData (u_cart u)))"

subsection \<open>Order routes\<close>

text \<open>
  \<open>user.cart.reduce((sum, item) => sum + (item.price * item.quantity), 0)\<close>: from left
  to right, in the arithmetic of doubles; NaN as soon as a line has no price or no
  quantity, or a product or a sum is NaN.
\<close>

definition lineTotal :: "lib \<Rightarrow> cart_item \<Rightarrow> double option" where
  "lineTotal L item = timesN L (storedNumber (c_price item)) (storedNumber (c_quantity item))"

definition cartTotal :: "lib \<Rightarrow> cart_item list \<Rightarrow> double option" where
  "cartTotal L cart = foldl (\<lambda>sum item. plusN L sum (lineTotal L item)) (Some (Finite 0)) cart"

definition orderLine :: "cart_item \<Rightarrow> order_line" where
  "orderLine item =
     \<lparr>l_productId = c_productId item, l_name = c_name item, l_price = c_price item,
      l_quantity = c_quantity item\<rparr>"

definition buildOrder :: "env \<Rightarrow> cart_item list \<Rightarrow> double \<Rightarrow> order" where
  "buildOrder E cart t =
     \<lparr>orderId = ''ORDER_'' @ showNat (now E), products = map orderLine cart,
      total = t, status = ''pending''\<rparr>"

text \<open>
  POST /api/users/:id/orders. A total that is NaN fails the cast to the Number path
  \<open>total\<close> of the order pushed: \<open>user.save()\<close> is then rejected with a ValidationError
  and nothing is written.
\<close>

definition placeOrder :: "lib \<Rightarrow> env \<Rightarrow> store \<Rightarrow> string \<Rightarrow> store \<times> response" where
  "placeOrder L E S i =
     (case findById L u_id (User S) i of
        Inl e \<Rightarrow> (S, json_fail 500 (message L e))
      | Inr None \<Rightarrow> (S, json_fail 404 ''User not found'')
      | Inr (Some u) \<Rightarrow>
          (case cartTotal L (u_cart u) of
             None \<Rightarrow> (S, json_fail 500 (message L (ValidationError [''total''])))
           | Some t \<Rightarrow>
               (let ord = buildOrder E (u_cart u) t;
                    u' = u\<lparr>u_orders := u_orders u @ [\<lparr>o_order = ord, o_createdAt = defaultNow E\<rparr>],
                           u_cart := []\<rparr>
                in (S\<lparr>User := saveUser u' (User S)\<rparr>, json_ok (OrderData ord)))))"

text \<open>GET /api/users/:id/orders\<close>

definition listOrders :: "lib \<Rightarrow> store \<Rightarrow> string \<Rightarrow> response" where
  "listOrders L S i =
     (case findById L u_id (User S) i of
        Inl e \<Rightarrow> json_fail 500 (message L e)
      | Inr None \<Rightarrow> json_fail 404 ''User not found''
      | Inr (Some u) \<Rightarrow> json_ok (OrderList (u_orders u)))"

subsection \<open>The shop-data route\<close>

text \<open>
  What the request to the main server comes to: the \<open>error\<close> event, or a reply with
  its status code (which the handler never reads) and the value \<open>JSON.parse\<close> returns
  for the text received, \<open>None\<close> when \<open>JSON.parse\<close> throws.
\<close>

datatype fetch =
    RequestError
  | Replied nat "json option"

text \<open>The argument of \<open>new Product(...)\<close> for one item of the remote list.\<close>

record product_arg =
  a_name :: "json option"
  a_price :: number
  a_description :: "json option"
  a_image :: "json option"
  a_category :: "json option"
  a_inStock :: bool

text \<open>\<open>parseFloat(v) || 0\<close>\<close>

definition numberOrZero :: "number option \<Rightarrow> number" where
  "numberOrZero r = (case r of None \<Rightarrow> 0 | Some x \<Rightarrow> if x \<noteq> 0 then x else 0)"

definition productArg :: "lib \<Rightarrow> json \<Rightarrow> error + product_arg" where
  "productArg L product =
     (case getProp (Some product) ''name'' of Inl e \<Rightarrow> Inl e | Inr name \<Rightarrow>
      case getProp (Some product) ''productName'' of Inl e \<Rightarrow> Inl e | Inr productName \<Rightarrow>
      case getProp (Some product) ''price'' of Inl e \<Rightarrow> Inl e | Inr price \<Rightarrow>
      case getProp (Some product) ''description'' of Inl e \<Rightarrow> Inl e | Inr description \<Rightarrow>
      case getProp (Some product) ''image'' of Inl e \<Rightarrow> Inl e | Inr img \<Rightarrow>
      case getProp (Some product) ''category'' of Inl e \<Rightarrow> Inl e | Inr category \<Rightarrow>
        Inr \<lparr>a_name = orElse name productName,
             a_price = numberOrZero (parseFloat L price),
             a_description = orElse description (Some (JStr [])),
             a_image = img,
             a_category = orElse category (Some (JStr ''General'')),
             a_inStock = True\<rparr>)"

text \<open>
  The cast of a value to a String path: \<open>undefined\<close> and \<open>null\<close> leave the path
  unset, a string is kept, another value goes through Mongoose's cast.
\<close>

fun castPath :: "lib \<Rightarrow> json option \<Rightarrow> unit + string option" where
  "castPath L None = Inr None"
| "castPath L (Some JNull) = Inr None"
| "castPath L (Some (JStr s)) = Inr (Some s)"
| "castPath L (Some v) = (case castString L v of None \<Rightarrow> Inl () | Some s \<Rightarrow> Inr (Some s))"

text \<open>The paths that fail validation: a failed cast, or the required \<open>name\<close> unset or empty.\<close>

definition castFailed :: "lib \<Rightarrow> string \<Rightarrow> json option \<Rightarrow> string list" where
  "castFailed L path v = (case castPath L v of Inl _ \<Rightarrow> [path] | Inr _ \<Rightarrow> [])"

definition nameFailed :: "lib \<Rightarrow> json option \<Rightarrow> string list" where
  "nameFailed L v =
     (case castPath L v of
        Inl _ \<Rightarrow> [''name'']
      | Inr None \<Rightarrow> [''name'']
      | Inr (Some s) \<Rightarrow> if s = [] then [''name''] else [])"

definition pathValue :: "lib \<Rightarrow> json option \<Rightarrow> string option" where
  "pathValue L v = (case castPath L v of Inl _ \<Rightarrow> None | Inr s \<Rightarrow> s)"

text \<open>
  \<open>new Product(arg).save()\<close> for the \<open>k\<close>-th item: rejected with a ValidationError, or
  resolved with the document that is now in the collection.
\<close>

definition saveProduct :: "lib \<Rightarrow> env \<Rightarrow> nat \<Rightarrow> product_arg \<Rightarrow> error + product" where
  "saveProduct L E k a =
     (let failed = nameFailed L (a_name a) @ castFailed L ''description'' (a_description a)
                   @ castFailed L ''image'' (a_image a) @ castFailed L ''category'' (a_category a)
      in case (failed, pathValue L (a_name a)) of
           ([], Some n) \<Rightarrow>
             Inr \<lparr>p_id = newId E k, p_name = n, p_price = a_price a,
                  p_description = pathValue L (a_description a),
                  p_image = pathValue L (a_image a),
                  p_category = pathValue L (a_category a),
                  p_inStock = a_inStock a, p_createdAt = defaultNow E\<rparr>
         | _ \<Rightarrow> Inl (ValidationError failed))"


text \<open>
  \<open>products.map(product => ... newProduct.save())\<close> followed by \<open>Promise.all\<close>. The
  callback throws a TypeError on an item that is \<open>null\<close>: then \<open>map\<close> stops (\<open>Threw\<close>),
  and the saves already started still run. Otherwise every save runs, and \<open>Promise.all\<close>
  is \<open>Rejected\<close> when one of them is, \<open>Resolved\<close> when none is. The first component is
  the list of the documents saved.
\<close>

datatype settled = Threw | Rejected | Resolved

fun saveAll :: "lib \<Rightarrow> env \<Rightarrow> nat \<Rightarrow> json list \<Rightarrow> product list \<times> settled" where
  "saveAll L E k [] = ([], Resolved)"
| "saveAll L E k (product # rest) =
     (case productArg L product of
        Inl e \<Rightarrow> ([], Threw)
      | Inr a \<Rightarrow>
          (let (saved, r) = saveAll L E (Suc k) rest
           in case saveProduct L E k a of
                Inl e \<Rightarrow> (saved, if r = Threw then Threw else Rejected)
              | Inr p \<Rightarrow> (p # saved, r)))"

text \<open>A property of a value on which property access cannot throw.\<close>

definition memberOf :: "json option \<Rightarrow> string \<Rightarrow> json option" where
  "memberOf v k = (case getProp v k of Inl _ \<Rightarrow> None | Inr x \<Rightarrow> x)"

definition parseFailure :: response where
  "parseFailure = json_fail 500 ''Failed to parse shop data''"

text \<open>
  GET /api/shop-data. The response is \<open>None\<close> where the handler never answers: an
  exception in the callback of \<open>Product.deleteMany({}).then\<close> is caught by nothing.
\<close>

definition storeProducts :: "lib \<Rightarrow> env \<Rightarrow> store \<Rightarrow> json option \<Rightarrow> json option \<Rightarrow> store \<times> response option" where
  "storeProducts L E S data prods =
     (let S' = S\<lparr>Product := []\<rparr>
      in case prods of
           Some (JArr items) \<Rightarrow>
             (case saveAll L E 0 items of
                (saved, Threw) \<Rightarrow> (S'\<lparr>Product := saved\<rparr>, None)
              | (saved, Resolved) \<Rightarrow>
                  (S'\<lparr>Product := saved\<rparr>,
                   Some (json_ok (ShopData
                     \<lparr>sd_shopName = memberOf data ''shopName'', sd_appName = memberOf data ''appName'',
                      sd_gstNumber = memberOf data ''gstNumber'', sd_products = JArr items,
                      sd_lastUpdated = memberOf data ''lastUpdated''\<rparr>)))
              | (saved, Rejected) \<Rightarrow> (S'\<lparr>Product := saved\<rparr>, Some (json_ok (RemoteData data))))
         | _ \<Rightarrow> (S', None))"

definition refreshFromRemote :: "lib \<Rightarrow> env \<Rightarrow> store \<Rightarrow> fetch \<Rightarrow> store \<times> response option" where
  "refreshFromRemote L E S f =
     (case f of
        RequestError \<Rightarrow> (S, Some (json_fail 500 ''Failed to fetch shop data from main server''))
      | Replied sc None \<Rightarrow> (S, Some parseFailure)
      | Replied sc (Some shopData) \<Rightarrow>
          (case getProp (Some shopData) ''success'' of
             Inl e \<Rightarrow> (S, Some parseFailure)
           | Inr success \<Rightarrow>
               if truthy success then
                 (case getProp (Some shopData) ''data'' of
                    Inl e \<Rightarrow> (S, Some parseFailure)
                  | Inr data \<Rightarrow>
                      (case getProp data ''products'' of
                         Inl e \<Rightarrow> (S, Some parseFailure)
                       | Inr ps \<Rightarrow> storeProducts L E S data (orElse ps (Some (JArr [])))))
               else (S, Some (json_fail 404 ''Shop data not found''))))"

subsection \<open>Configuration and health routes\<close>

text \<open>GET /api/app-config\<close>

definition getConfig :: "env \<Rightarrow> response" where
  "getConfig E =
     json_ok (ConfigData
       \<lparr>cfg_adminId = ''6902176a312bc81a247cf58e'', cfg_shopName = ''FunFood'',
        cfg_lastUpdated = now E,
        cfg_features = \<lparr>searchEnabled = True, cartEnabled = True,
                        userRegistrationEnabled = True, orderTrackingEnabled = True\<rparr>\<rparr>)"

text \<open>GET /health\<close>

definition health :: "env \<Rightarrow> response" where
  "health E = \<lparr>code = 200, content = Liveness ''OK'' (now E)\<rparr>"

subsection \<open>The server\<close>

datatype request =
    GET_products
  | GET_product string
  | GET_search string
  | POST_register register_body
  | GET_user string
  | POST_cart string cart_body
  | GET_cart string
  | POST_orders string
  | GET_orders string
  | GET_shop_data fetch
  | GET_app_config
  | GET_health

fun handle :: "lib \<Rightarrow> env \<Rightarrow> store \<Rightarrow> request \<Rightarrow> store \<times> response option" where
  "handle L E S GET_products = (S, Some (listAvailable S))"
| "handle L E S (GET_product i) = (S, Some (getById L S i))"
| "handle L E S (GET_search q) = (S, Some (search L S q))"
| "handle L E S (POST_register b) = (let (S', r) = register L E S b in (S', Some r))"
| "handle L E S (GET_user i) = (S, Some (getProfile L S i))"
| "handle L E S (POST_cart i b) = (let (S', r) = addItem L E S i b in (S', Some r))"
| "handle L E S (GET_cart i) = (S, Some (getCart L S i))"
| "handle L E S (POST_orders i) = (let (S', r) = placeOrder L E S i in (S', Some r))"
| "handle L E S (GET_orders i) = (S, Some (listOrders L S i))"
| "handle L E S (GET_shop_data f) = refreshFromRemote L E S f"
| "handle L E S GET_app_config = (S, Some (getConfig E))"
| "handle L E S GET_health = (S, Some (health E))"




subsection \<open>Predicates of the statements\<close>



text \<open>\<open>shopData.success\<close> is truthy: the reply does not indicate failure.\<close>

definition indicatesSuccess :: "json \<Rightarrow> bool" where
  "indicatesSuccess shopData =
     (case getProp (Some shopData) ''success'' of Inl e \<Rightarrow> False | Inr s \<Rightarrow> truthy s)"

text \<open>The two envelopes, and the status codes of the 2xx class.\<close>

fun isEnvelope :: "body \<Rightarrow> bool" where
  "isEnvelope (Success d) = True"
| "isEnvelope (Failure m) = True"
| "isEnvelope (Liveness s t) = False"

fun isFailure :: "body \<Rightarrow> bool" where
  "isFailure (Failure m) = True"
| "isFailure b = False"

definition is2xx :: "nat \<Rightarrow> bool" where
  "is2xx c \<longleftrightarrow> 200 \<le> c \<and> c < 300"

text \<open>
  The fields of a user document other than the cart and the order history; and a change of
  state that leaves the products alone and, of the user documents, touches at most the cart
  and the order history of documents with the identifier that the route parameter denotes.
\<close>

definition sameProfile :: "user \<Rightarrow> user \<Rightarrow> bool" where
  "sameProfile v v' \<longleftrightarrow>
     u_id v' = u_id v \<and> u_name v' = u_name v \<and> u_email v' = u_email v \<and> u_phone v' = u_phone v
     \<and> u_address v' = u_address v \<and> u_createdAt v' = u_createdAt v"

definition touchesOnlyUser :: "lib \<Rightarrow> string \<Rightarrow> store \<Rightarrow> store \<Rightarrow> bool" where
  "touchesOnlyUser L i S S' \<longleftrightarrow>
     Product S' = Product S \<and> length (User S') = length (User S)
     \<and> (\<forall>k<length (User S).
           sameProfile (User S ! k) (User S' ! k)
         \<and> (castObjectId L i \<noteq> Some (u_id (User S ! k)) \<longrightarrow> User S' ! k = User S ! k))"

text \<open>
  A response in one of the two envelopes: \<open>{success: true, data}\<close> with status 200, or
  \<open>{success: false, error}\<close> with status 400, 404 or 500, which are outside the 2xx
  class.
\<close>

definition enveloped :: "response \<Rightarrow> bool" where
  "enveloped resp \<longleftrightarrow>
     isEnvelope (content resp)
     \<and> (isFailure (content resp) \<longrightarrow>
          (code resp = 400 \<or> code resp = 404 \<or> code resp = 500) \<and> \<not> is2xx (code resp))
     \<and> (\<not> isFailure (content resp) \<longrightarrow> code resp = 200)"

text \<open>
  A cart line with a string as product id and name, and finite numbers as price and
  quantity.
\<close>

definition line :: "string \<Rightarrow> string \<Rightarrow> number \<Rightarrow> number \<Rightarrow> date \<Rightarrow> cart_item" where
  "line productId name price quantity addedAt =
     \<lparr>c_productId = Val productId, c_name = Val name, c_price = Val (Finite price),
      c_quantity = Val (Finite quantity), c_addedAt = addedAt\<rparr>"

text \<open>A cart body with the types of the schema.\<close>

definition typedBody :: "string \<Rightarrow> string \<Rightarrow> number \<Rightarrow> number \<Rightarrow> cart_body" where
  "typedBody productId name price quantity =
     \<lparr>b_productId = Some (JStr productId), b_name = Some (JStr name),
      b_price = Some (JNum price), b_quantity = Some (JNum quantity)\<rparr>"

subsection \<open>An instance for the examples\<close>

text \<open>
  The theorems below hold for every library and environment. The examples run the
  handlers on this instance. It answers as the real library does on the inputs of the
  examples: identifiers of 24 hexadecimal digits; patterns made of letters, digits and
  spaces (which match as substrings, whatever the case) and the text \<open>(\<close>, which is no
  regular expression; \<open>parseFloat\<close> of a number or of a value that is no text; sums and
  products of small natural numbers, which are exact in doubles, and of infinities; the
  text of a natural number and of an infinity; the casts to String of a boolean and of a
  natural number, and to Number of a boolean and of a text of decimal digits. On other
  inputs it answers as for a failure, or with the exact sum and product, or with the empty
  text, and stands for nothing. Its messages stand for the texts of the library's errors.
\<close>

definition lowerChar :: "char \<Rightarrow> char" where
  "lowerChar c =
     (case map_of (zip ''ABCDEFGHIJKLMNOPQRSTUVWXYZ'' ''abcdefghijklmnopqrstuvwxyz'') c of
        None \<Rightarrow> c
      | Some d \<Rightarrow> d)"

definition isHexDigit :: "char \<Rightarrow> bool" where
  "isHexDigit c \<longleftrightarrow> lowerChar c \<in> set ''0123456789abcdef''"

definition isPlainChar :: "char \<Rightarrow> bool" where
  "isPlainChar c \<longleftrightarrow> lowerChar c \<in> set ''abcdefghijklmnopqrstuvwxyz0123456789 ''"

fun startsWith :: "string \<Rightarrow> string \<Rightarrow> bool" where
  "startsWith [] s = True"
| "startsWith (c # p) [] = False"
| "startsWith (c # p) (d # s) = (c = d \<and> startsWith p s)"

fun containsText :: "string \<Rightarrow> string \<Rightarrow> bool" where
  "containsText p [] = (p = [])"
| "containsText p (d # s) = (startsWith p (d # s) \<or> containsText p s)"

definition isDigit :: "char \<Rightarrow> bool" where
  "isDigit c \<longleftrightarrow> c \<in> set ''0123456789''"

definition digitValue :: "char \<Rightarrow> nat" where
  "digitValue c =
     (case map_of (zip ''0123456789'' [0, 1, 2, 3, 4, 5, 6, 7, 8, 9]) c of
        None \<Rightarrow> 0
      | Some d \<Rightarrow> d)"

definition readNat :: "string \<Rightarrow> nat" where
  "readNat s = foldl (\<lambda>n c. 10 * n + digitValue c) 0 s"

definition isNatural :: "number \<Rightarrow> bool" where
  "isNatural x \<longleftrightarrow> x = real (nat \<lfloor>x\<rfloor>)"

definition naturalText :: "number \<Rightarrow> string" where
  "naturalText x = (if isNatural x then showNat (nat \<lfloor>x\<rfloor>) else [])"

fun exactPlus :: "double \<Rightarrow> double \<Rightarrow> double option" where
  "exactPlus (Finite x) (Finite y) = Some (Finite (x + y))"
| "exactPlus (Finite x) b = Some b"
| "exactPlus a (Finite y) = Some a"
| "exactPlus a b = (if a = b then Some a else None)"

fun opposite :: "double \<Rightarrow> double" where
  "opposite (Finite x) = Finite (- x)"
| "opposite PosInfinity = NegInfinity"
| "opposite NegInfinity = PosInfinity"

fun exactTimes :: "double \<Rightarrow> double \<Rightarrow> double option" where
  "exactTimes (Finite x) (Finite y) = Some (Finite (x * y))"
| "exactTimes (Finite x) b = (if x = 0 then None else Some (if 0 < x then b else opposite b))"
| "exactTimes a (Finite y) = (if y = 0 then None else Some (if 0 < y then a else opposite a))"
| "exactTimes a b = Some (if a = b then PosInfinity else NegInfinity)"

fun doubleText :: "double \<Rightarrow> string" where
  "doubleText (Finite x) = naturalText x"
| "doubleText PosInfinity = ''Infinity''"
| "doubleText NegInfinity = ''-Infinity''"

definition demoLib :: lib where
  "demoLib =
     \<lparr>castObjectId = (\<lambda>s. if length s = 24 \<and> list_all isHexDigit s
                           then Some (map lowerChar s) else None),
      regexp = (\<lambda>p opts. if list_all isPlainChar p
                          then Some (if CHR ''i'' \<in> set opts
                                     then (\<lambda>s. containsText (map lowerChar p) (map lowerChar s))
                                     else containsText p)
                          else None),
      parseFloat = (\<lambda>v. case v of Some (JNum n) \<Rightarrow> Some n | _ \<Rightarrow> None),
      castString = (\<lambda>v. case v of
                      JBool b \<Rightarrow> Some (if b then ''true'' else ''false'')
                    | JNum x \<Rightarrow> (if isNatural x then Some (naturalText x) else None)
                    | _ \<Rightarrow> None),
      castNumber = (\<lambda>v. case v of
                      JBool b \<Rightarrow> Some (Val (Finite (if b then 1 else 0)))
                    | JStr s \<Rightarrow> (if s = [] then Some Null
                                else if list_all isDigit s then Some (Val (Finite (real (readNat s))))
                                else None)
                    | _ \<Rightarrow> None),
      plus = exactPlus,
      times = exactTimes,
      numberToString = doubleText,
      message = (\<lambda>e. case e of
                   CastError v path \<Rightarrow> ''Cast to ObjectId failed for value '' @ v @ '' at path '' @ path
                 | ValidationError paths \<Rightarrow> ''Validation failed: '' @ concat (map (\<lambda>p. p @ '' is required. '') paths)
                 | MongoError q \<Rightarrow> ''Regular expression is invalid: '' @ q
                 | TypeError \<Rightarrow> ''TypeError'')\<rparr>"

definition demoEnv :: env where
  "demoEnv =
     \<lparr>now = 1700000000123, defaultNow = 1700000000124,
      newId = (\<lambda>k. ''65f0c0de00000000000000'' @ [digit (k div 10 mod 10), digit (k mod 10)])\<rparr>"

definition noAddress :: address where
  "noAddress = \<lparr>street = [], city = [], state = [], zipCode = []\<rparr>"

definition aliceId :: string where
  "aliceId = ''65f0c0de0000000000000a01''"

definition bobId :: string where
  "bobId = ''65f0c0de0000000000000b02''"

definition alice :: user where
  "alice =
     \<lparr>u_id = aliceId, u_name = ''Alice'', u_email = ''alice@example.org'', u_phone = ''555-0101'',
      u_address = noAddress, u_orders = [],
      u_cart = [line ''p1'' ''Tea'' 10 2 1699999990000, line ''p2'' ''Scone'' 5 1 1699999995000],
      u_createdAt = 1699999000000\<rparr>"

definition bob :: user where
  "bob =
     \<lparr>u_id = bobId, u_name = ''Bob'', u_email = ''bob@example.org'', u_phone = ''555-0102'',
      u_address = noAddress, u_orders = [], u_cart = [], u_createdAt = 1699999100000\<rparr>"

definition tea :: product where
  "tea =
     \<lparr>p_id = ''65f0c0de0000000000000c01'', p_name = ''Green Tea'', p_price = 10,
      p_description = Some ''Loose leaf'', p_image = None, p_category = Some ''Drinks'',
      p_inStock = True, p_createdAt = 1699998000000\<rparr>"

definition scone :: product where
  "scone =
     \<lparr>p_id = ''65f0c0de0000000000000c02'', p_name = ''Scone'', p_price = 5,
      p_description = Some ''Goes with tea'', p_image = None, p_category = Some ''Bakery'',
      p_inStock = False, p_createdAt = 1699998000001\<rparr>"

definition demoStore :: store where
  "demoStore = \<lparr>Product = [tea, scone], User = [alice, bob]\<rparr>"

definition emptyStore :: store where
  "emptyStore = \<lparr>Product = [], User = []\<rparr>"

definition carolBody :: register_body where
  "carolBody =
     \<lparr>r_name = ''Carol'', r_email = ''carol@example.org'', r_phone = ''555-0103'',
      r_address = noAddress\<rparr>"

definition carolId :: string where
  "carolId = ''65f0c0de0000000000000000''"

definition carol :: user where
  "carol =
     \<lparr>u_id = carolId, u_name = ''Carol'', u_email = ''carol@example.org'', u_phone = ''555-0103'',
      u_address = noAddress, u_orders = [], u_cart = [], u_createdAt = 1700000000124\<rparr>"


definition teaThrice :: cart_body where
  "teaThrice = typedBody ''p1'' ''Tea'' 10 3"

text \<open>The database after Carol has registered, and after she has then added two teas.\<close>

definition carolRegistered :: store where
  "carolRegistered = fst (handle demoLib demoEnv emptyStore (POST_register carolBody))"




definition teaNoQuantity :: cart_body where
  "teaNoQuantity =
     \<lparr>b_productId = Some (JStr ''p1''), b_name = Some (JStr ''Tea''), b_price = Some (JNum 10),
      b_quantity = None\<rparr>"


definition carolNoQuantity :: store where
  "carolNoQuantity = fst (handle demoLib demoEnv carolRegistered (POST_cart carolId teaNoQuantity))"

text \<open>A registration without a name, and an identifier that no product has.\<close>

definition nameless :: register_body where
  "nameless =
     \<lparr>r_name = [], r_email = ''dave@example.org'', r_phone = ''555-0104'', r_address = noAddress\<rparr>"

definition unusedId :: string where
  "unusedId = ''65f0c0de0000000000000fff''"








section \<open>Properties\<close>

subsection \<open>Lemmas on the collection operations\<close>

lemma find_saveUser:
  "find (\<lambda>d. u_id d = oid) us = Some u \<Longrightarrow> u_id u' = oid
     \<Longrightarrow> find (\<lambda>d. u_id d = oid) (saveUser u' us) = Some u'"
  by (induction us) (auto split: if_splits)

lemma length_saveUser: "length (saveUser u' us) = length us"
  by (induction us) auto

lemma set_saveUser: "set (saveUser u' us) \<subseteq> insert u' (set us)"
  by (induction us) auto

lemma find_Some_id: "find (\<lambda>d. u_id d = oid) us = Some u \<Longrightarrow> u_id u = oid \<and> u \<in> set us"
  by (induction us) (auto split: if_splits)

lemma saveUser_nth:
  "k < length us \<Longrightarrow> u_id (us ! k) \<noteq> u_id u' \<Longrightarrow> saveUser u' us ! k = us ! k"
  by (induction us arbitrary: k) (auto simp: nth_Cons split: nat.splits)

lemma showNat_digit: "n < 10 \<Longrightarrow> showNat n = [digit n]"
  by (subst showNat.simps) simp

lemma showNat_more: "10 \<le> n \<Longrightarrow> showNat n = showNat (n div 10) @ [digit (n mod 10)]"
  by (subst showNat.simps) simp

lemma findById_found:
  "findById L idf docs i = Inr (Some d) \<longleftrightarrow>
     (\<exists>oid. castObjectId L i = Some oid \<and> find (\<lambda>x. idf x = oid) docs = Some d)"
  by (auto simp: findById_def split: option.splits)

lemma findById_saveUser:
  assumes "findById L u_id us i = Inr (Some u)" and "u_id u' = u_id u"
  shows "findById L u_id (saveUser u' us) i = Inr (Some u')"
proof -
  from assms(1) obtain oid where c: "castObjectId L i = Some oid"
    and f: "find (\<lambda>x. u_id x = oid) us = Some u"
    by (auto simp: findById_found)
  from find_Some_id[OF f] have "u_id u = oid" by simp
  with assms(2) have "u_id u' = oid" by simp
  from find_saveUser[OF f this] c show ?thesis by (simp add: findById_def)
qed



subsection \<open>The example database\<close>

lemma demo_cast:
  "castObjectId demoLib aliceId = Some aliceId"
  "castObjectId demoLib bobId = Some bobId"
  "castObjectId demoLib carolId = Some carolId"
  by (simp_all add: demoLib_def aliceId_def bobId_def carolId_def isHexDigit_def lowerChar_def)

lemma demo_carolRegistered: "carolRegistered = \<lparr>Product = [], User = [carol]\<rparr>"
  by (simp add: carolRegistered_def emptyStore_def register_def demoEnv_def carolBody_def
        validateUser_def carolId_def digit_def carol_def Let_def)

lemma demo_find_carol: "findById demoLib u_id [carol\<lparr>u_cart := cart\<rparr>] carolId = Inr (Some (carol\<lparr>u_cart := cart\<rparr>))"
  by (simp add: findById_def demo_cast carol_def)





lemma demo_carolNoQuantity:
  "carolNoQuantity =
     \<lparr>Product = [],
      User = [carol\<lparr>u_cart := [\<lparr>c_productId = Val ''p1'', c_name = Val ''Tea'', c_price = Val (Finite 10),
                               c_quantity = Unset, c_addedAt = 1700000000124\<rparr>]\<rparr>]\<rparr>"
  using demo_find_carol[of "[]"]
  by (simp add: carolNoQuantity_def demo_carolRegistered addItem_def
       addToCart_def newItem_def teaNoQuantity_def demoEnv_def carol_def)

lemma demo_ids: "aliceId \<noteq> bobId" "bobId \<noteq> aliceId" "u_id alice = aliceId" "u_id bob = bobId"
  by (simp_all add: aliceId_def bobId_def alice_def bob_def)

lemma demo_find:
  "findById demoLib u_id (User demoStore) aliceId = Inr (Some alice)"
  "findById demoLib u_id (User demoStore) bobId = Inr (Some bob)"
  by (simp_all add: findById_def demo_cast demoStore_def demo_ids)

subsection \<open>Lemmas on the cart and its total\<close>

lemma cartTotal_Nil: "cartTotal L [] = Some (Finite 0)"
  by (simp add: cartTotal_def)

lemma cartTotal_snoc: "cartTotal L (cart @ [item]) = plusN L (cartTotal L cart) (lineTotal L item)"
  by (simp add: cartTotal_def)

lemma cartTotal_take_Suc:
  "k < length cart \<Longrightarrow>
   cartTotal L (take (Suc k) cart) = plusN L (cartTotal L (take k cart)) (lineTotal L (cart ! k))"
  by (simp add: take_Suc_conv_app_nth cartTotal_snoc)

lemma plusN_None: "a = None \<or> b = None \<Longrightarrow> plusN L a b = None"
  by (cases a; cases b) simp_all

lemma timesN_None: "a = None \<or> b = None \<Longrightarrow> timesN L a b = None"
  by (cases a; cases b) simp_all

lemma storedNumber_None: "storedNumber q = None \<longleftrightarrow> q = Unset"
  by (cases q) simp_all

lemma lineTotal_None:
  "c_price item = Unset \<or> c_quantity item = Unset \<Longrightarrow> lineTotal L item = None"
  by (auto simp: lineTotal_def timesN_None)

lemma cartTotal_None:
  "\<exists>item\<in>set cart. c_price item = Unset \<or> c_quantity item = Unset \<Longrightarrow> cartTotal L cart = None"
proof (induction cart rule: rev_induct)
  case Nil
  then show ?case by simp
next
  case (snoc x xs)
  show ?case
  proof (cases "c_price x = Unset \<or> c_quantity x = Unset")
    case True
    then show ?thesis by (simp add: cartTotal_snoc lineTotal_None plusN_None)
  next
    case False
    with snoc.prems have "\<exists>item\<in>set xs. c_price item = Unset \<or> c_quantity item = Unset" by auto
    from snoc.IH[OF this] show ?thesis by (simp add: cartTotal_snoc plusN_None)
  qed
qed


lemma addQuantity_Inr:
  "addQuantity L b cart = Inr cart' \<Longrightarrow>
   map c_productId cart' = map c_productId cart \<and> length cart' = length cart
   \<and> (\<forall>k<length cart. \<not> sameId (c_productId (cart ! k)) (b_productId b) \<longrightarrow> cart' ! k = cart ! k)"
proof (induction cart arbitrary: cart')
  case Nil
  then show ?case by simp
next
  case (Cons a cart)
  show ?case
  proof (cases "sameId (c_productId a) (b_productId b)")
    case True
    with Cons.prems show ?thesis
      by (auto simp: nth_Cons split: sum.splits nat.splits)
  next
    case False
    with Cons.prems obtain rest' where r: "addQuantity L b cart = Inr rest'" and c: "cart' = a # rest'"
      by (auto split: sum.splits)
    from Cons.IH[OF r] c False show ?thesis
      by (auto simp: nth_Cons split: nat.splits)
  qed
qed


lemma addToCart_Inr:
  assumes "addToCart L E b cart = Inr cart'"
  shows "(\<forall>k<length cart. \<not> sameId (c_productId (cart ! k)) (b_productId b) \<longrightarrow>
            k < length cart' \<and> cart' ! k = cart ! k)"
proof (cases "find (\<lambda>item. sameId (c_productId item) (b_productId b)) cart")
  case None
  with assms obtain item where "cart' = cart @ [item]"
    by (auto simp: addToCart_def split: sum.splits)
  then show ?thesis by (simp add: nth_append)
next
  case (Some x)
  with assms have "addQuantity L b cart = Inr cart'" by (simp add: addToCart_def)
  from addQuantity_Inr[OF this] show ?thesis by simp
qed



lemma addItem_existing:
  "findById L u_id (User S) i = Inr (Some u) \<Longrightarrow>
   addItem L E S i b =
     (case addToCart L E b (u_cart u) of
        Inl paths \<Rightarrow> (S, json_fail 500 (message L (ValidationError paths)))
      | Inr cart \<Rightarrow> (S\<lparr>User := saveUser (u\<lparr>u_cart := cart\<rparr>) (User S)\<rparr>, json_ok (CartData cart)))"
  by (simp add: addItem_def Let_def split: sum.splits)






subsection \<open>Placing an order\<close>

text \<open>
  C1, as the code has it. For a user that exists, the total is computed from left to right
  in the arithmetic of doubles: it starts at 0, and each cart line adds the product of its
  price and its quantity. It is NaN when a line of the cart has no price or no quantity
  (and when a product or a sum of the computation is). When the total is a number,
  \<open>placeOrder\<close> answers 200 with one order that
  has this total and one line for each cart item, in order, with the item's product id,
  name, price and quantity (and no \<open>addedAt\<close>); the user is saved once, with that order
  appended to the order history and the cart empty, and is found so afterwards. This holds
  for the empty cart: the order then has total 0 and no line. When the total is NaN the
  save is rejected: the answer is 500 and the database is as before, with no order and the
  cart as it was.
\<close>

theorem placeOrder_snapshots_cart:
  assumes "findById L u_id (User S) i = Inr (Some u)"
  shows "(\<forall>t. cartTotal L (u_cart u) = Some t \<longrightarrow>
            (\<exists>ord u'. placeOrder L E S i = (S\<lparr>User := saveUser u' (User S)\<rparr>, json_ok (OrderData ord))
               \<and> u' = u\<lparr>u_orders := u_orders u @ [\<lparr>o_order = ord, o_createdAt = defaultNow E\<rparr>],
                         u_cart := []\<rparr>
               \<and> findById L u_id (saveUser u' (User S)) i = Inr (Some u')
               \<and> total ord = t
               \<and> length (products ord) = length (u_cart u)
               \<and> (\<forall>k<length (u_cart u).
                     l_productId (products ord ! k) = c_productId (u_cart u ! k)
                   \<and> l_name (products ord ! k) = c_name (u_cart u ! k)
                   \<and> l_price (products ord ! k) = c_price (u_cart u ! k)
                   \<and> l_quantity (products ord ! k) = c_quantity (u_cart u ! k))
               \<and> orderId ord = ''ORDER_'' @ showNat (now E) \<and> status ord = ''pending''
               \<and> (u_cart u = [] \<longrightarrow> total ord = Finite 0 \<and> products ord = [])))
       \<and> (cartTotal L (u_cart u) = None \<longrightarrow>
            placeOrder L E S i = (S, json_fail 500 (message L (ValidationError [''total'']))))
       \<and> ((\<exists>item\<in>set (u_cart u). c_price item = Unset \<or> c_quantity item = Unset) \<longrightarrow>
            cartTotal L (u_cart u) = None)
       \<and> cartTotal L (take 0 (u_cart u)) = Some (Finite 0)
       \<and> (\<forall>k<length (u_cart u).
            cartTotal L (take (Suc k) (u_cart u))
              = plusN L (cartTotal L (take k (u_cart u)))
                        (timesN L (storedNumber (c_price (u_cart u ! k)))
                                  (storedNumber (c_quantity (u_cart u ! k)))))
       \<and> cartTotal L (take (length (u_cart u)) (u_cart u)) = cartTotal L (u_cart u)
       \<and> (u_cart u = [] \<longrightarrow> cartTotal L (u_cart u) = Some (Finite 0))"
proof -
  have created: "\<exists>ord u'. placeOrder L E S i = (S\<lparr>User := saveUser u' (User S)\<rparr>, json_ok (OrderData ord))
               \<and> u' = u\<lparr>u_orders := u_orders u @ [\<lparr>o_order = ord, o_createdAt = defaultNow E\<rparr>],
                         u_cart := []\<rparr>
               \<and> findById L u_id (saveUser u' (User S)) i = Inr (Some u')
               \<and> total ord = t
               \<and> length (products ord) = length (u_cart u)
               \<and> (\<forall>k<length (u_cart u).
                     l_productId (products ord ! k) = c_productId (u_cart u ! k)
                   \<and> l_name (products ord ! k) = c_name (u_cart u ! k)
                   \<and> l_price (products ord ! k) = c_price (u_cart u ! k)
                   \<and> l_quantity (products ord ! k) = c_quantity (u_cart u ! k))
               \<and> orderId ord = ''ORDER_'' @ showNat (now E) \<and> status ord = ''pending''
               \<and> (u_cart u = [] \<longrightarrow> total ord = Finite 0 \<and> products ord = [])"
    if t: "cartTotal L (u_cart u) = Some t" for t
  proof -
    define ord where "ord = buildOrder E (u_cart u) t"
    define u' where "u' = u\<lparr>u_orders := u_orders u @ [\<lparr>o_order = ord, o_createdAt = defaultNow E\<rparr>],
                           u_cart := []\<rparr>"
    have run: "placeOrder L E S i = (S\<lparr>User := saveUser u' (User S)\<rparr>, json_ok (OrderData ord))"
      using assms t by (simp add: placeOrder_def ord_def u'_def Let_def)
    have "u_id u' = u_id u" by (simp add: u'_def)
    from findById_saveUser[OF assms this]
    have stored: "findById L u_id (saveUser u' (User S)) i = Inr (Some u')" .
    have tot: "total ord = t" by (simp add: ord_def buildOrder_def)
    have lines: "products ord = map orderLine (u_cart u)"
      by (simp add: ord_def buildOrder_def)
    have fields: "\<forall>k<length (u_cart u).
                     l_productId (products ord ! k) = c_productId (u_cart u ! k)
                   \<and> l_name (products ord ! k) = c_name (u_cart u ! k)
                   \<and> l_price (products ord ! k) = c_price (u_cart u ! k)
                   \<and> l_quantity (products ord ! k) = c_quantity (u_cart u ! k)"
      by (simp add: lines orderLine_def)
    have ids: "orderId ord = ''ORDER_'' @ showNat (now E) \<and> status ord = ''pending''"
      by (simp add: ord_def buildOrder_def)
    have empty: "u_cart u = [] \<longrightarrow> total ord = Finite 0 \<and> products ord = []"
      using t by (auto simp: tot lines cartTotal_Nil)
    from run stored tot lines fields ids empty u'_def show ?thesis
      by (intro exI[of _ ord] exI[of _ u']) simp
  qed
  have rejected: "placeOrder L E S i = (S, json_fail 500 (message L (ValidationError [''total''])))"
    if "cartTotal L (u_cart u) = None"
    using assms that by (simp add: placeOrder_def)
  have steps: "\<forall>k<length (u_cart u).
            cartTotal L (take (Suc k) (u_cart u))
              = plusN L (cartTotal L (take k (u_cart u)))
                        (timesN L (storedNumber (c_price (u_cart u ! k)))
                                  (storedNumber (c_quantity (u_cart u ! k))))"
    by (simp add: cartTotal_take_Suc lineTotal_def)
  have start: "cartTotal L (take 0 (u_cart u)) = Some (Finite 0)" by (simp add: cartTotal_Nil)
  have whole: "cartTotal L (take (length (u_cart u)) (u_cart u)) = cartTotal L (u_cart u)" by simp
  have empty: "u_cart u = [] \<longrightarrow> cartTotal L (u_cart u) = Some (Finite 0)" by (simp add: cartTotal_Nil)
  have nan: "(\<exists>item\<in>set (u_cart u). c_price item = Unset \<or> c_quantity item = Unset) \<longrightarrow>
            cartTotal L (u_cart u) = None"
    using cartTotal_None[of "u_cart u" L] by blast
  from created rejected nan steps start whole empty
  show ?thesis by blast
qed

text \<open>
  Carol registers with the empty database and adds a tea without saying how many. The
  line is stored without a quantity, and her order is then refused: the answer is 500,
  no order is created and the cart is as it was.
\<close>

theorem placeOrder_no_quantity_counterexample:
  "u_cart (User carolNoQuantity ! 0)
     = [\<lparr>c_productId = Val ''p1'', c_name = Val ''Tea'', c_price = Val (Finite 10),
         c_quantity = Unset, c_addedAt = 1700000000124\<rparr>]
   \<and> findById demoLib u_id (User carolNoQuantity) carolId = Inr (Some (User carolNoQuantity ! 0))
   \<and> placeOrder demoLib demoEnv carolNoQuantity carolId
       = (carolNoQuantity, json_fail 500 (message demoLib (ValidationError [''total''])))"
  by (simp add: demo_carolNoQuantity demo_find_carol placeOrder_def cartTotal_def lineTotal_def)

text \<open>
  Alice's cart holds two teas at 10 and one scone at 5: the order has total 25 and two
  lines, and her cart is empty afterwards. Bob's cart is empty: his order has total 0 and
  no line. Carol's cart has a line without quantity: the total is NaN and the answer 500.
\<close>

theorem placeOrder_snapshots_cart_witness:
  "findById demoLib u_id (User demoStore) aliceId = Inr (Some alice)
   \<and> findById demoLib u_id (User demoStore) bobId = Inr (Some bob)
   \<and> cartTotal demoLib (u_cart alice) = Some (Finite 25)
   \<and> (\<exists>ord u'. placeOrder demoLib demoEnv demoStore aliceId
                   = (demoStore\<lparr>User := saveUser u' (User demoStore)\<rparr>, json_ok (OrderData ord))
         \<and> findById demoLib u_id (saveUser u' (User demoStore)) aliceId = Inr (Some u')
         \<and> u_cart u' = [] \<and> map o_order (u_orders u') = [ord]
         \<and> total ord = Finite 25 \<and> length (products ord) = 2
         \<and> l_productId (products ord ! 0) = Val ''p1'' \<and> l_quantity (products ord ! 0) = Val (Finite 2)
         \<and> l_productId (products ord ! 1) = Val ''p2'' \<and> l_price (products ord ! 1) = Val (Finite 5)
         \<and> orderId ord = ''ORDER_1700000000123'')
   \<and> (\<exists>ord u'. placeOrder demoLib demoEnv demoStore bobId
                   = (demoStore\<lparr>User := saveUser u' (User demoStore)\<rparr>, json_ok (OrderData ord))
         \<and> map o_order (u_orders u') = [ord] \<and> total ord = Finite 0 \<and> products ord = [])
   \<and> cartTotal demoLib (u_cart (User carolNoQuantity ! 0)) = None
   \<and> placeOrder demoLib demoEnv carolNoQuantity carolId
       = (carolNoQuantity, json_fail 500 (message demoLib (ValidationError [''total''])))"
proof -
  note a = demo_find(1) and b = demo_find(2)
  have now: "showNat (now demoEnv) = ''1700000000123''"
    by (simp add: demoEnv_def showNat_digit showNat_more digit_def)
  have ta: "cartTotal demoLib (u_cart alice) = Some (Finite 25)"
    by (simp add: alice_def cartTotal_def lineTotal_def line_def demoLib_def)
  have tb: "cartTotal demoLib (u_cart bob) = Some (Finite 0)"
    by (simp add: bob_def cartTotal_def)
  from placeOrder_snapshots_cart[OF a, of demoEnv, THEN conjunct1, rule_format, OF ta]
  obtain ord u' where run: "placeOrder demoLib demoEnv demoStore aliceId
                   = (demoStore\<lparr>User := saveUser u' (User demoStore)\<rparr>, json_ok (OrderData ord))"
    and u': "u' = alice\<lparr>u_orders := u_orders alice @ [\<lparr>o_order = ord, o_createdAt = defaultNow demoEnv\<rparr>],
                        u_cart := []\<rparr>"
    and stored: "findById demoLib u_id (saveUser u' (User demoStore)) aliceId = Inr (Some u')"
    and tot: "total ord = Finite 25"
    and len: "length (products ord) = length (u_cart alice)"
    and fields: "\<forall>k<length (u_cart alice).
           l_productId (products ord ! k) = c_productId (u_cart alice ! k)
         \<and> l_name (products ord ! k) = c_name (u_cart alice ! k)
         \<and> l_price (products ord ! k) = c_price (u_cart alice ! k)
         \<and> l_quantity (products ord ! k) = c_quantity (u_cart alice ! k)"
    and oid: "orderId ord = ''ORDER_'' @ showNat (now demoEnv)"
    by (elim exE conjE) (rule that, assumption+)
  have "length (products ord) = 2" "u_cart u' = []"
       "map o_order (u_orders u') = [ord]" "orderId ord = ''ORDER_1700000000123''"
    by (simp_all add: len u' oid now alice_def)
  moreover from fields[rule_format, of 0] fields[rule_format, of 1]
  have "l_productId (products ord ! 0) = Val ''p1''" "l_quantity (products ord ! 0) = Val (Finite 2)"
       "l_productId (products ord ! 1) = Val ''p2''" "l_price (products ord ! 1) = Val (Finite 5)"
    by (simp_all add: alice_def line_def)
  ultimately have first: "\<exists>ord u'. placeOrder demoLib demoEnv demoStore aliceId
                   = (demoStore\<lparr>User := saveUser u' (User demoStore)\<rparr>, json_ok (OrderData ord))
         \<and> findById demoLib u_id (saveUser u' (User demoStore)) aliceId = Inr (Some u')
         \<and> u_cart u' = [] \<and> map o_order (u_orders u') = [ord]
         \<and> total ord = Finite 25 \<and> length (products ord) = 2
         \<and> l_productId (products ord ! 0) = Val ''p1'' \<and> l_quantity (products ord ! 0) = Val (Finite 2)
         \<and> l_productId (products ord ! 1) = Val ''p2'' \<and> l_price (products ord ! 1) = Val (Finite 5)
         \<and> orderId ord = ''ORDER_1700000000123''"
    using run stored tot by (intro exI[of _ ord] exI[of _ u']) simp
  from placeOrder_snapshots_cart[OF b, of demoEnv, THEN conjunct1, rule_format, OF tb]
  obtain ord2 u2 where run2: "placeOrder demoLib demoEnv demoStore bobId
                   = (demoStore\<lparr>User := saveUser u2 (User demoStore)\<rparr>, json_ok (OrderData ord2))"
    and u2: "u2 = bob\<lparr>u_orders := u_orders bob @ [\<lparr>o_order = ord2, o_createdAt = defaultNow demoEnv\<rparr>],
                        u_cart := []\<rparr>"
    and t2: "total ord2 = Finite 0"
    and empty: "u_cart bob = [] \<longrightarrow> total ord2 = Finite 0 \<and> products ord2 = []"
    by (elim exE conjE) (rule that, assumption+)
  have "map o_order (u_orders u2) = [ord2]" "total ord2 = Finite 0" "products ord2 = []"
    using empty by (simp_all add: u2 bob_def)
  with run2 have second: "\<exists>ord u'. placeOrder demoLib demoEnv demoStore bobId
                   = (demoStore\<lparr>User := saveUser u' (User demoStore)\<rparr>, json_ok (OrderData ord))
         \<and> map o_order (u_orders u') = [ord] \<and> total ord = Finite 0 \<and> products ord = []"
    by (intro exI[of _ ord2] exI[of _ u2]) simp
  let ?c = "carol\<lparr>u_cart := [\<lparr>c_productId = Val ''p1'', c_name = Val ''Tea'', c_price = Val (Finite 10),
                               c_quantity = Unset, c_addedAt = 1700000000124\<rparr>]\<rparr>"
  have c: "findById demoLib u_id (User carolNoQuantity) carolId = Inr (Some ?c)"
    by (simp add: demo_carolNoQuantity demo_find_carol)
  have "\<exists>item\<in>set (u_cart ?c). c_price item = Unset \<or> c_quantity item = Unset" by simp
  from placeOrder_snapshots_cart[OF c, of demoEnv, THEN conjunct2, THEN conjunct2, THEN conjunct1,
      rule_format, OF this]
  have tc: "cartTotal demoLib (u_cart ?c) = None" .
  from placeOrder_snapshots_cart[OF c, of demoEnv, THEN conjunct2, THEN conjunct1, rule_format, OF tc]
  have third: "placeOrder demoLib demoEnv carolNoQuantity carolId
       = (carolNoQuantity, json_fail 500 (message demoLib (ValidationError [''total''])))" .
  have tc': "cartTotal demoLib (u_cart (User carolNoQuantity ! 0)) = None"
    using tc by (simp add: demo_carolNoQuantity)
  from a b ta first second tc' third show ?thesis by (intro conjI)
qed

subsection \<open>Adding to the cart\<close>












subsection \<open>What the cart and order routes leave unchanged\<close>

lemma saveUser_cases:
  "find (\<lambda>d. u_id d = oid) us = Some u \<Longrightarrow> u_id u' = oid \<Longrightarrow> k < length us \<Longrightarrow>
   saveUser u' us ! k = us ! k \<or> (saveUser u' us ! k = u' \<and> us ! k = u)"
proof (induction us arbitrary: k)
  case Nil
  then show ?case by simp
next
  case (Cons a us)
  show ?case
  proof (cases "u_id a = oid")
    case True
    with Cons.prems show ?thesis by (cases k) auto
  next
    case False
    with Cons show ?thesis by (cases k) auto
  qed
qed

lemma saveUser_touchesOnlyUser:
  assumes "findById L u_id (User S) i = Inr (Some u)" and "sameProfile u u'"
  shows "touchesOnlyUser L i S (S\<lparr>User := saveUser u' (User S)\<rparr>)"
proof -
  from assms(1) obtain oid where c: "castObjectId L i = Some oid"
    and f: "find (\<lambda>x. u_id x = oid) (User S) = Some u"
    by (auto simp: findById_found)
  from find_Some_id[OF f] assms(2) have id': "u_id u' = oid" by (simp add: sameProfile_def)
  have "sameProfile (User S ! k) (saveUser u' (User S) ! k)
         \<and> (castObjectId L i \<noteq> Some (u_id (User S ! k)) \<longrightarrow> saveUser u' (User S) ! k = User S ! k)"
    if k: "k < length (User S)" for k
  proof -
    from saveUser_cases[OF f id' k] assms(2)
    have "sameProfile (User S ! k) (saveUser u' (User S) ! k)"
      by (auto simp: sameProfile_def)
    moreover have "saveUser u' (User S) ! k = User S ! k"
      if "castObjectId L i \<noteq> Some (u_id (User S ! k))"
      using that c id' saveUser_nth[OF k, of u'] by simp
    ultimately show ?thesis by blast
  qed
  then show ?thesis by (simp add: touchesOnlyUser_def length_saveUser)
qed

lemma touchesOnlyUser_refl: "touchesOnlyUser L i S S"
  by (simp add: touchesOnlyUser_def sameProfile_def)

lemma addItem_touchesOnlyUser: "touchesOnlyUser L i S (fst (addItem L E S i b))"
proof (cases "findById L u_id (User S) i")
  case (Inl e)
  then show ?thesis by (simp add: addItem_def touchesOnlyUser_refl)
next
  case (Inr r)
  show ?thesis
  proof (cases r)
    case None
    with Inr show ?thesis by (simp add: addItem_def touchesOnlyUser_refl)
  next
    case (Some u)
    with Inr have found: "findById L u_id (User S) i = Inr (Some u)" by simp
    show ?thesis
    proof (cases "addToCart L E b (u_cart u)")
      case (Inl paths)
      then show ?thesis by (simp add: addItem_existing[OF found] touchesOnlyUser_refl)
    next
      case (Inr cart')
      have "sameProfile u (u\<lparr>u_cart := cart'\<rparr>)" by (simp add: sameProfile_def)
      from saveUser_touchesOnlyUser[OF found this] Inr show ?thesis
        by (simp add: addItem_existing[OF found])
    qed
  qed
qed

lemma placeOrder_touchesOnlyUser: "touchesOnlyUser L i S (fst (placeOrder L E S i))"
proof (cases "findById L u_id (User S) i")
  case (Inl e)
  then show ?thesis by (simp add: placeOrder_def touchesOnlyUser_refl)
next
  case (Inr r)
  show ?thesis
  proof (cases r)
    case None
    with Inr show ?thesis by (simp add: placeOrder_def touchesOnlyUser_refl)
  next
    case (Some u)
    with Inr have found: "findById L u_id (User S) i = Inr (Some u)" by simp
    show ?thesis
    proof (cases "cartTotal L (u_cart u)")
      case None
      with found show ?thesis by (simp add: placeOrder_def touchesOnlyUser_refl)
    next
      case (Some t)
      let ?u' = "u\<lparr>u_orders := u_orders u @ [\<lparr>o_order = buildOrder E (u_cart u) t,
                                                o_createdAt = defaultNow E\<rparr>],
                   u_cart := []\<rparr>"
      have "sameProfile u ?u'" by (simp add: sameProfile_def)
      from saveUser_touchesOnlyUser[OF found this] found Some show ?thesis
        by (simp add: placeOrder_def Let_def)
    qed
  qed
qed

lemma addItem_keeps_lines:
  assumes k: "k < length (User S)"
  shows "u_orders (User (fst (addItem L E S i b)) ! k) = u_orders (User S ! k)
     \<and> (\<forall>j<length (u_cart (User S ! k)).
           \<not> sameId (c_productId (u_cart (User S ! k) ! j)) (b_productId b) \<longrightarrow>
             j < length (u_cart (User (fst (addItem L E S i b)) ! k))
           \<and> u_cart (User (fst (addItem L E S i b)) ! k) ! j = u_cart (User S ! k) ! j)"
proof (cases "findById L u_id (User S) i")
  case (Inl e)
  then show ?thesis by (simp add: addItem_def)
next
  case (Inr r)
  show ?thesis
  proof (cases r)
    case None
    with Inr show ?thesis by (simp add: addItem_def)
  next
    case (Some u)
    with Inr have found: "findById L u_id (User S) i = Inr (Some u)" by simp
    then obtain oid where f: "find (\<lambda>x. u_id x = oid) (User S) = Some u"
      by (auto simp: findById_found)
    show ?thesis
    proof (cases "addToCart L E b (u_cart u)")
      case (Inl paths)
      then show ?thesis by (simp add: addItem_existing[OF found])
    next
      case (Inr cart')
      let ?u' = "u\<lparr>u_cart := cart'\<rparr>"
      from find_Some_id[OF f] have "u_id ?u' = oid" by simp
      from saveUser_cases[OF f this k] addToCart_Inr[OF Inr]
      show ?thesis
        by (auto simp: addItem_existing[OF found] Inr)
    qed
  qed
qed

text \<open>
  C10. \<open>addItem\<close> and \<open>placeOrder\<close> leave the Product collection as it is, keep the
  number and order of the user documents, keep the id, name, email, phone, address and
  creation date of each of them, and change no document whose id is not the one the route
  parameter denotes. \<open>addItem\<close>, moreover, changes no order history and no cart line
  whose product id is not identical (\<open>===\<close>) to that of the request.
\<close>

theorem cart_and_order_frame:
  "touchesOnlyUser L i S (fst (addItem L E S i b))
   \<and> touchesOnlyUser L i S (fst (placeOrder L E S i))
   \<and> (\<forall>k<length (User S).
         u_orders (User (fst (addItem L E S i b)) ! k) = u_orders (User S ! k)
       \<and> (\<forall>j<length (u_cart (User S ! k)).
             \<not> sameId (c_productId (u_cart (User S ! k) ! j)) (b_productId b) \<longrightarrow>
               j < length (u_cart (User (fst (addItem L E S i b)) ! k))
             \<and> u_cart (User (fst (addItem L E S i b)) ! k) ! j = u_cart (User S ! k) ! j))"
  using addItem_touchesOnlyUser placeOrder_touchesOnlyUser addItem_keeps_lines by blast

text \<open>
  Alice adds three teas (\<open>p1\<close>), or places her order: the two products and Bob's document
  are as before, and so are Alice's name and email; after \<open>addItem\<close> her order history
  is still empty and the line of her cart for \<open>p2\<close> is as it was.
\<close>

theorem cart_and_order_frame_witness:
  "Product (fst (addItem demoLib demoEnv demoStore aliceId teaThrice)) = [tea, scone]
   \<and> Product (fst (placeOrder demoLib demoEnv demoStore aliceId)) = [tea, scone]
   \<and> User (fst (addItem demoLib demoEnv demoStore aliceId teaThrice)) ! 1 = bob
   \<and> User (fst (placeOrder demoLib demoEnv demoStore aliceId)) ! 1 = bob
   \<and> u_email (User (fst (addItem demoLib demoEnv demoStore aliceId teaThrice)) ! 0) = ''alice@example.org''
   \<and> u_name (User (fst (placeOrder demoLib demoEnv demoStore aliceId)) ! 0) = ''Alice''
   \<and> u_orders (User (fst (addItem demoLib demoEnv demoStore aliceId teaThrice)) ! 0) = []
   \<and> u_cart (User (fst (addItem demoLib demoEnv demoStore aliceId teaThrice)) ! 0) ! 1
       = line ''p2'' ''Scone'' 5 1 1699999995000"
proof -
  note T = cart_and_order_frame[of demoLib aliceId demoStore demoEnv teaThrice]
  have users: "User demoStore = [alice, bob]" and prods: "Product demoStore = [tea, scone]"
    by (simp_all add: demoStore_def)
  from T have A: "touchesOnlyUser demoLib aliceId demoStore (fst (addItem demoLib demoEnv demoStore aliceId teaThrice))"
    and P: "touchesOnlyUser demoLib aliceId demoStore (fst (placeOrder demoLib demoEnv demoStore aliceId))"
    and C: "\<forall>k<length (User demoStore).
         u_orders (User (fst (addItem demoLib demoEnv demoStore aliceId teaThrice)) ! k) = u_orders (User demoStore ! k)
       \<and> (\<forall>j<length (u_cart (User demoStore ! k)).
             \<not> sameId (c_productId (u_cart (User demoStore ! k) ! j)) (b_productId teaThrice) \<longrightarrow>
               j < length (u_cart (User (fst (addItem demoLib demoEnv demoStore aliceId teaThrice)) ! k))
             \<and> u_cart (User (fst (addItem demoLib demoEnv demoStore aliceId teaThrice)) ! k) ! j = u_cart (User demoStore ! k) ! j)"
    by blast+
  from A have "Product (fst (addItem demoLib demoEnv demoStore aliceId teaThrice)) = [tea, scone]"
    "User (fst (addItem demoLib demoEnv demoStore aliceId teaThrice)) ! 1 = bob"
    "u_email (User (fst (addItem demoLib demoEnv demoStore aliceId teaThrice)) ! 0) = ''alice@example.org''"
    by (simp_all add: touchesOnlyUser_def sameProfile_def users prods demo_cast demo_ids alice_def)
  moreover from P have "Product (fst (placeOrder demoLib demoEnv demoStore aliceId)) = [tea, scone]"
    "User (fst (placeOrder demoLib demoEnv demoStore aliceId)) ! 1 = bob"
    "u_name (User (fst (placeOrder demoLib demoEnv demoStore aliceId)) ! 0) = ''Alice''"
    by (simp_all add: touchesOnlyUser_def sameProfile_def users prods demo_cast demo_ids alice_def)
  moreover from C[rule_format, of 0] have
    "u_orders (User (fst (addItem demoLib demoEnv demoStore aliceId teaThrice)) ! 0) = []"
    by (simp add: users alice_def)
  moreover from C[rule_format, of 0, THEN conjunct2, rule_format, of 1] have
    "u_cart (User (fst (addItem demoLib demoEnv demoStore aliceId teaThrice)) ! 0) ! 1
       = line ''p2'' ''Scone'' 5 1 1699999995000"
    by (simp add: users alice_def teaThrice_def typedBody_def line_def)
  ultimately show ?thesis by (intro conjI)
qed

subsection \<open>Looking up a product\<close>

lemma find_id_None: "find (\<lambda>d. idf d = oid) docs = None \<longleftrightarrow> oid \<notin> idf ` set docs"
  by (auto simp: find_None_iff)

lemma find_id_Some: "find (\<lambda>d. idf d = oid) docs = Some d \<Longrightarrow> d \<in> set docs \<and> idf d = oid"
  by (induction docs) (auto split: if_splits)

text \<open>
  C7, as the code has it. \<open>getById\<close> answers 200 with a product of that id when the
  collection has one (the first, in the order of the collection), and 404 "Product not
  found" when the id is well formed and no product has it. When the id is malformed the
  cast of the query fails, and the answer is 500 with the message of the cast error.
\<close>

theorem getById_cases:
  "(castObjectId L i = None \<longrightarrow> getById L S i = json_fail 500 (message L (CastError i ''_id'')))
   \<and> (\<forall>oid. castObjectId L i = Some oid \<longrightarrow>
         (oid \<in> p_id ` set (Product S) \<longrightarrow>
            (\<exists>p\<in>set (Product S). p_id p = oid \<and> getById L S i = json_ok (ProductDoc p)))
       \<and> (oid \<notin> p_id ` set (Product S) \<longrightarrow> getById L S i = json_fail 404 ''Product not found''))"
proof -
  have malformed: "getById L S i = json_fail 500 (message L (CastError i ''_id''))"
    if "castObjectId L i = None"
    using that by (simp add: getById_def findById_def)
  have present: "\<exists>p\<in>set (Product S). p_id p = oid \<and> getById L S i = json_ok (ProductDoc p)"
    if c: "castObjectId L i = Some oid" and "oid \<in> p_id ` set (Product S)" for oid
  proof -
    from that(2) have "find (\<lambda>d. p_id d = oid) (Product S) \<noteq> None"
      by (simp add: find_id_None)
    then obtain p where f: "find (\<lambda>d. p_id d = oid) (Product S) = Some p" by blast
    from find_id_Some[OF f] c f show ?thesis
      by (auto simp: getById_def findById_def)
  qed
  have absent: "getById L S i = json_fail 404 ''Product not found''"
    if "castObjectId L i = Some oid" and "oid \<notin> p_id ` set (Product S)" for oid
    using that find_id_None[of p_id oid "Product S"] by (simp add: getById_def findById_def)
  from malformed present absent show ?thesis by blast
qed

text \<open>
  The parameter \<open>abc\<close> is no ObjectId: the answer is 500, not the 404 of a product that
  is not found.
\<close>

theorem getById_malformed_counterexample:
  "castObjectId demoLib ''abc'' = None
   \<and> code (getById demoLib demoStore ''abc'') = 500
   \<and> getById demoLib demoStore ''abc'' \<noteq> json_fail 404 ''Product not found''"
  by (simp add: getById_def findById_def demoLib_def json_fail_def)

lemma demo_cast_more:
  "castObjectId demoLib ''65f0c0de0000000000000c01'' = Some ''65f0c0de0000000000000c01''"
  "castObjectId demoLib unusedId = Some unusedId"
  "castObjectId demoLib ''abc'' = None"
  by (simp_all add: demoLib_def unusedId_def isHexDigit_def lowerChar_def)

theorem getById_cases_witness:
  "getById demoLib demoStore ''65f0c0de0000000000000c01'' = json_ok (ProductDoc tea)
   \<and> getById demoLib demoStore unusedId = json_fail 404 ''Product not found''
   \<and> getById demoLib demoStore ''abc'' = json_fail 500 (message demoLib (CastError ''abc'' ''_id''))"
proof -
  have prods: "Product demoStore = [tea, scone]" by (simp add: demoStore_def)
  from getById_cases[of demoLib "''65f0c0de0000000000000c01''" demoStore]
  have "getById demoLib demoStore ''65f0c0de0000000000000c01'' = json_ok (ProductDoc tea)"
    by (simp add: demo_cast_more prods tea_def scone_def)
  moreover from getById_cases[of demoLib unusedId demoStore]
  have "getById demoLib demoStore unusedId = json_fail 404 ''Product not found''"
    by (simp add: demo_cast_more[unfolded unusedId_def] prods tea_def scone_def unusedId_def)
  moreover from getById_cases[of demoLib "''abc''" demoStore]
  have "getById demoLib demoStore ''abc'' = json_fail 500 (message demoLib (CastError ''abc'' ''_id''))"
    by (simp add: demo_cast_more)
  ultimately show ?thesis by (intro conjI)
qed

subsection \<open>Registration\<close>

text \<open>
  C6, as the code has it. When a user with the email exists, \<open>register\<close> answers 400
  "User already exists" and the database is as before. Otherwise, when the name and the
  email are not empty, the new user, with empty cart and order history, is appended to the
  collection and returned. Otherwise (the schema requires both fields) the save is rejected:
  the answer is 500 and the database is as before.
\<close>

theorem register_cases:
  "(r_email b \<in> u_email ` set (User S) \<longrightarrow>
      register L E S b = (S, json_fail 400 ''User already exists''))
   \<and> (r_email b \<notin> u_email ` set (User S) \<and> r_name b \<noteq> [] \<and> r_email b \<noteq> [] \<longrightarrow>
        (\<exists>user. register L E S b = (S\<lparr>User := User S @ [user]\<rparr>, json_ok (UserDoc user))
           \<and> user = \<lparr>u_id = newId E 0, u_name = r_name b, u_email = r_email b, u_phone = r_phone b,
                      u_address = r_address b, u_orders = [], u_cart = [],
                      u_createdAt = defaultNow E\<rparr>))
   \<and> (r_email b \<notin> u_email ` set (User S) \<and> (r_name b = [] \<or> r_email b = []) \<longrightarrow>
        fst (register L E S b) = S \<and> code (snd (register L E S b)) = 500
        \<and> isFailure (content (snd (register L E S b))))"
proof -
  have conflict: "register L E S b = (S, json_fail 400 ''User already exists'')"
    if "r_email b \<in> u_email ` set (User S)"
  proof -
    from that have "find (\<lambda>u. u_email u = r_email b) (User S) \<noteq> None"
      by (simp add: find_id_None)
    then show ?thesis by (auto simp: register_def)
  qed
  have none: "find (\<lambda>u. u_email u = r_email b) (User S) = None"
    if "r_email b \<notin> u_email ` set (User S)"
    using that by (simp add: find_id_None)
  have created: "\<exists>user. register L E S b = (S\<lparr>User := User S @ [user]\<rparr>, json_ok (UserDoc user))
           \<and> user = \<lparr>u_id = newId E 0, u_name = r_name b, u_email = r_email b, u_phone = r_phone b,
                      u_address = r_address b, u_orders = [], u_cart = [],
                      u_createdAt = defaultNow E\<rparr>"
    if "r_email b \<notin> u_email ` set (User S)" and "r_name b \<noteq> []" and "r_email b \<noteq> []"
    using none[OF that(1)] that(2,3) by (simp add: register_def validateUser_def Let_def)
  have rejected: "fst (register L E S b) = S \<and> code (snd (register L E S b)) = 500
        \<and> isFailure (content (snd (register L E S b)))"
    if "r_email b \<notin> u_email ` set (User S)" and "r_name b = [] \<or> r_email b = []"
    using none[OF that(1)] that(2)
    by (auto simp: register_def validateUser_def Let_def json_fail_def)
  from conflict created rejected show ?thesis by blast
qed

text \<open>
  No user has Dave's email, and yet his registration, which has no name, creates no user:
  the answer is 500 and the database is as before.
\<close>

theorem register_nameless_counterexample:
  "r_email nameless \<notin> u_email ` set (User demoStore)
   \<and> register demoLib demoEnv demoStore nameless
       = (demoStore, json_fail 500 (message demoLib (ValidationError [''name''])))"
  by (simp add: register_def nameless_def demoStore_def alice_def bob_def validateUser_def Let_def)

theorem register_cases_witness:
  "register demoLib demoEnv carolRegistered carolBody = (carolRegistered, json_fail 400 ''User already exists'')
   \<and> register demoLib demoEnv emptyStore carolBody = (\<lparr>Product = [], User = [carol]\<rparr>, json_ok (UserDoc carol))
   \<and> fst (register demoLib demoEnv demoStore nameless) = demoStore
   \<and> code (snd (register demoLib demoEnv demoStore nameless)) = 500"
proof -
  from register_cases[of carolBody carolRegistered demoLib demoEnv]
  have "register demoLib demoEnv carolRegistered carolBody = (carolRegistered, json_fail 400 ''User already exists'')"
    by (simp add: demo_carolRegistered carol_def carolBody_def)
  moreover from register_cases[of carolBody emptyStore demoLib demoEnv]
  have "register demoLib demoEnv emptyStore carolBody = (\<lparr>Product = [], User = [carol]\<rparr>, json_ok (UserDoc carol))"
    by (simp add: emptyStore_def carol_def carolBody_def demoEnv_def carolId_def digit_def)
  moreover from register_cases[of nameless demoStore demoLib demoEnv]
  have "fst (register demoLib demoEnv demoStore nameless) = demoStore
   \<and> code (snd (register demoLib demoEnv demoStore nameless)) = 500"
    by (simp add: nameless_def demoStore_def alice_def bob_def)
  ultimately show ?thesis by simp
qed

subsection \<open>Searching\<close>

text \<open>
  C8, as the code has it. When the store accepts the text as a pattern, with the option
  \<open>i\<close> (case insensitive), \<open>search\<close> answers 200 with the products, in the order of
  the collection, that are in stock and whose name, description or category the pattern
  matches: a product is in the answer exactly when it is such a product of the collection.
  No answer of \<open>search\<close> holds a product that is out of stock. When the text is no
  regular expression, the store rejects the query and the answer is 500, with the message
  of the error and no list of products.
\<close>

theorem search_in_stock_matches:
  "(\<forall>m. regexp L query ''i'' = Some m \<longrightarrow>
      (\<exists>ps. search L S query = json_ok (ProductList ps)
         \<and> ps = filter (\<lambda>p. (m (p_name p) \<or> (\<exists>d. p_description p = Some d \<and> m d)
                                \<or> (\<exists>c. p_category p = Some c \<and> m c)) \<and> p_inStock p) (Product S)
         \<and> (\<forall>p. p \<in> set ps \<longleftrightarrow>
               p \<in> set (Product S) \<and> p_inStock p
               \<and> (m (p_name p) \<or> (\<exists>d. p_description p = Some d \<and> m d)
                   \<or> (\<exists>c. p_category p = Some c \<and> m c)))))
   \<and> (\<forall>ps. content (search L S query) = Success (ProductList ps) \<longrightarrow> (\<forall>p\<in>set ps. p_inStock p))
   \<and> (regexp L query ''i'' = None \<longrightarrow>
        search L S query = json_fail 500 (message L (MongoError query)))"
proof -
  have field: "matchField m f \<longleftrightarrow> (\<exists>s. f = Some s \<and> m s)" for m f
    by (cases f) (simp_all add: matchField_def)
  have crit: "searchFilter m = (\<lambda>p. (m (p_name p) \<or> (\<exists>d. p_description p = Some d \<and> m d)
                                \<or> (\<exists>c. p_category p = Some c \<and> m c)) \<and> p_inStock p)" for m
    by (rule ext) (simp add: searchFilter_def field)
  have accepted: "\<exists>ps. search L S query = json_ok (ProductList ps)
         \<and> ps = filter (\<lambda>p. (m (p_name p) \<or> (\<exists>d. p_description p = Some d \<and> m d)
                                \<or> (\<exists>c. p_category p = Some c \<and> m c)) \<and> p_inStock p) (Product S)
         \<and> (\<forall>p. p \<in> set ps \<longleftrightarrow>
               p \<in> set (Product S) \<and> p_inStock p
               \<and> (m (p_name p) \<or> (\<exists>d. p_description p = Some d \<and> m d)
                   \<or> (\<exists>c. p_category p = Some c \<and> m c)))"
    if "regexp L query ''i'' = Some m" for m
    using that by (auto simp: search_def crit)
  have stock: "\<forall>p\<in>set ps. p_inStock p"
    if "content (search L S query) = Success (ProductList ps)" for ps
    using that
    by (cases "regexp L query ''i''") (auto simp: search_def json_ok_def json_fail_def searchFilter_def)
  have refused: "search L S query = json_fail 500 (message L (MongoError query))"
    if "regexp L query ''i'' = None"
    using that by (simp add: search_def)
  from accepted stock refused show ?thesis by blast
qed

text \<open>
  The text \<open>(\<close> is no regular expression: the answer is 500 and holds no product,
  matching or not.
\<close>

theorem search_no_pattern_counterexample:
  "regexp demoLib ''('' ''i'' = None
   \<and> search demoLib demoStore ''('' = json_fail 500 (message demoLib (MongoError ''(''))
   \<and> code (search demoLib demoStore ''('') = 500"
  by (simp add: search_def demoLib_def isPlainChar_def lowerChar_def json_fail_def)

text \<open>
  The search for \<open>TEA\<close> finds Green Tea by its name. The scone, whose description
  holds "tea", is out of stock and is not in the answer. The search for \<open>(\<close> is
  answered by 500.
\<close>

theorem search_in_stock_matches_witness:
  "search demoLib demoStore ''TEA'' = json_ok (ProductList [tea])
   \<and> content (search demoLib demoStore ''TEA'') = Success (ProductList [tea])
   \<and> p_inStock tea \<and> \<not> p_inStock scone
   \<and> regexp demoLib ''('' ''i'' = None
   \<and> search demoLib demoStore ''('' = json_fail 500 (message demoLib (MongoError ''(''))"
proof -
  define m where "m = (\<lambda>s. containsText ''tea'' (map lowerChar s))"
  have re: "regexp demoLib ''TEA'' ''i'' = Some m"
    by (simp add: demoLib_def isPlainChar_def lowerChar_def m_def)
  from search_in_stock_matches[of demoLib "''TEA''" demoStore, THEN conjunct1, rule_format, OF re]
  have "search demoLib demoStore ''TEA'' = json_ok (ProductList [tea])"
    by (simp add: demoStore_def tea_def scone_def m_def lowerChar_def)
  moreover from this have c: "content (search demoLib demoStore ''TEA'') = Success (ProductList [tea])"
    by (simp add: json_ok_def)
  moreover from search_in_stock_matches[of demoLib "''TEA''" demoStore, THEN conjunct2, THEN conjunct1,
      rule_format, OF c]
  have "p_inStock tea" by simp
  moreover have "\<not> p_inStock scone" by (simp add: scone_def)
  moreover have none: "regexp demoLib ''('' ''i'' = None"
    by (simp add: demoLib_def isPlainChar_def lowerChar_def)
  moreover from search_in_stock_matches[of demoLib "''(''" demoStore, THEN conjunct2, THEN conjunct2,
      rule_format, OF none]
  have "search demoLib demoStore ''('' = json_fail 500 (message demoLib (MongoError ''(''))" .
  ultimately show ?thesis by simp
qed

subsection \<open>The shape of the responses\<close>

lemma enveloped_ok: "enveloped (json_ok d)"
  by (simp add: enveloped_def json_ok_def)

lemma enveloped_fail: "c = 400 \<or> c = 404 \<or> c = 500 \<Longrightarrow> enveloped (json_fail c m)"
  by (auto simp: enveloped_def json_fail_def is2xx_def)

lemma enveloped_lookup:
  "enveloped (case r of Inl e \<Rightarrow> json_fail 500 (message L e)
                       | Inr None \<Rightarrow> json_fail 404 m
                       | Inr (Some d) \<Rightarrow> json_ok (g d))"
  by (simp add: enveloped_ok enveloped_fail split: sum.splits option.splits)

lemma enveloped_search: "enveloped (search L S q)"
  by (simp add: search_def enveloped_ok enveloped_fail split: option.splits)

lemma enveloped_register: "enveloped (snd (register L E S b))"
  by (simp add: register_def Let_def enveloped_ok enveloped_fail split: option.splits list.splits)

lemma enveloped_addItem: "enveloped (snd (addItem L E S i b))"
  by (simp add: addItem_def Let_def enveloped_ok enveloped_fail split: sum.splits option.splits)

lemma enveloped_placeOrder: "enveloped (snd (placeOrder L E S i))"
  by (simp add: placeOrder_def Let_def enveloped_ok enveloped_fail split: sum.splits option.splits)

lemma enveloped_storeProducts:
  "snd (storeProducts L E S data prods) = Some resp \<Longrightarrow> enveloped resp"
  by (auto simp: storeProducts_def Let_def enveloped_ok
           split: option.splits json.splits prod.splits settled.splits)

lemma enveloped_refresh:
  "snd (refreshFromRemote L E S f) = Some resp \<Longrightarrow> enveloped resp"
  by (auto simp: refreshFromRemote_def parseFailure_def enveloped_fail
           dest: enveloped_storeProducts
           split: fetch.splits option.splits sum.splits if_splits)

lemma enveloped_shape:
  assumes "enveloped resp"
  shows "(\<exists>d. resp = json_ok d)
       \<or> (\<exists>m. resp = json_fail 400 m \<or> resp = json_fail 404 m \<or> resp = json_fail 500 m)"
proof (cases "content resp")
  case (Success d)
  with assms have "resp = json_ok d" by (cases resp) (simp add: enveloped_def json_ok_def)
  then show ?thesis by blast
next
  case (Failure m)
  with assms have "resp = json_fail 400 m \<or> resp = json_fail 404 m \<or> resp = json_fail 500 m"
    by (cases resp) (auto simp: enveloped_def json_fail_def)
  then show ?thesis by blast
next
  case (Liveness s t)
  with assms show ?thesis by (simp add: enveloped_def)
qed

text \<open>
  C9, as the code has it. Every response that the handler of a route under \<open>/api\<close>
  sends is in one of the two envelopes: \<open>{success: true, data}\<close> with status 200, or
  \<open>{success: false, error}\<close> with status 400, 404 or 500, none of which is in the 2xx
  class. The response of \<open>/health\<close> is \<open>{status: 'OK', timestamp}\<close> with status 200,
  which is neither.
\<close>

theorem api_responses_enveloped:
  assumes "handle L E S r = (S', Some resp)"
  shows "(r \<noteq> GET_health \<longrightarrow>
            enveloped resp
          \<and> ((\<exists>d. resp = \<lparr>code = 200, content = Success d\<rparr>)
             \<or> (\<exists>m. resp = \<lparr>code = 400, content = Failure m\<rparr>
                   \<or> resp = \<lparr>code = 404, content = Failure m\<rparr>
                   \<or> resp = \<lparr>code = 500, content = Failure m\<rparr>)))
       \<and> (r = GET_health \<longrightarrow> resp = \<lparr>code = 200, content = Liveness ''OK'' (now E)\<rparr>)"
proof -
  have "(r \<noteq> GET_health \<longrightarrow> enveloped resp)
       \<and> (r = GET_health \<longrightarrow> resp = \<lparr>code = 200, content = Liveness ''OK'' (now E)\<rparr>)"
  proof (cases r)
    case GET_products
    with assms show ?thesis by (auto simp: listAvailable_def enveloped_ok)
  next
    case (GET_product i)
    with assms show ?thesis by (auto simp: getById_def enveloped_lookup)
  next
    case (GET_search q)
    with assms show ?thesis by (auto simp: enveloped_search)
  next
    case (POST_register b)
    with assms enveloped_register[of L E S b] show ?thesis by (auto simp: split_beta)
  next
    case (GET_user i)
    with assms show ?thesis by (auto simp: getProfile_def enveloped_lookup)
  next
    case (POST_cart i b)
    with assms enveloped_addItem[of L E S i b] show ?thesis by (auto simp: split_beta)
  next
    case (GET_cart i)
    with assms show ?thesis by (auto simp: getCart_def enveloped_lookup)
  next
    case (POST_orders i)
    with assms enveloped_placeOrder[of L E S i] show ?thesis by (auto simp: split_beta)
  next
    case (GET_orders i)
    with assms show ?thesis by (auto simp: listOrders_def enveloped_lookup)
  next
    case (GET_shop_data f)
    with assms have "snd (refreshFromRemote L E S f) = Some resp" by simp
    from enveloped_refresh[OF this] GET_shop_data show ?thesis by simp
  next
    case GET_app_config
    with assms show ?thesis by (auto simp: getConfig_def enveloped_ok)
  next
    case GET_health
    with assms show ?thesis by (auto simp: health_def)
  qed
  with enveloped_shape[of resp] show ?thesis
    unfolding json_ok_def json_fail_def by blast
qed

text \<open>The response of the health route is in neither envelope.\<close>

theorem health_not_enveloped_counterexample:
  "handle demoLib demoEnv demoStore GET_health
     = (demoStore, Some \<lparr>code = 200, content = Liveness ''OK'' 1700000000123\<rparr>)
   \<and> \<not> isEnvelope (Liveness ''OK'' 1700000000123)
   \<and> \<not> enveloped \<lparr>code = 200, content = Liveness ''OK'' 1700000000123\<rparr>"
  by (simp add: health_def demoEnv_def enveloped_def)

text \<open>
  The lookup of the malformed id \<open>abc\<close> is answered by a failure envelope with status
  500, the list of products by a success envelope with status 200, the health route by
  its own body.
\<close>

theorem api_responses_enveloped_witness:
  "handle demoLib demoEnv demoStore (GET_product ''abc'')
     = (demoStore, Some (json_fail 500 (message demoLib (CastError ''abc'' ''_id''))))
   \<and> enveloped (json_fail 500 (message demoLib (CastError ''abc'' ''_id'')))
   \<and> handle demoLib demoEnv demoStore GET_products = (demoStore, Some (json_ok (ProductList [tea])))
   \<and> enveloped (json_ok (ProductList [tea]))
   \<and> handle demoLib demoEnv demoStore GET_health
       = (demoStore, Some \<lparr>code = 200, content = Liveness ''OK'' (now demoEnv)\<rparr>)"
proof -
  have a: "handle demoLib demoEnv demoStore (GET_product ''abc'')
     = (demoStore, Some (json_fail 500 (message demoLib (CastError ''abc'' ''_id''))))"
    by (simp add: getById_def findById_def demo_cast_more)
  have b: "handle demoLib demoEnv demoStore GET_products = (demoStore, Some (json_ok (ProductList [tea])))"
    by (simp add: listAvailable_def demoStore_def tea_def scone_def)
  have c: "handle demoLib demoEnv demoStore GET_health
       = (demoStore, Some \<lparr>code = 200, content = Liveness ''OK'' (now demoEnv)\<rparr>)"
    by (simp add: health_def)
  from api_responses_enveloped[OF a] have "enveloped (json_fail 500 (message demoLib (CastError ''abc'' ''_id'')))"
    by simp
  moreover from api_responses_enveloped[OF b] have "enveloped (json_ok (ProductList [tea]))"
    by simp
  moreover note a b c
  ultimately show ?thesis by simp
qed

subsection \<open>The refresher: replies that change nothing\<close>

text \<open>
  C3. When the request to the main server fails, when the text received is not valid JSON,
  and when the value received does not have a truthy \<open>success\<close> (the reply indicates
  failure), \<open>refreshFromRemote\<close> answers with a failure envelope, of status 404 or 500,
  and the database is exactly as before: nothing is deleted and nothing is inserted.
\<close>

theorem refresh_failure_changes_nothing:
  assumes "f = RequestError \<or> f = Replied sc None \<or> (f = Replied sc (Some shopData) \<and> \<not> indicatesSuccess shopData)"
  shows "\<exists>resp. refreshFromRemote L E S f = (S, Some resp)
           \<and> isFailure (content resp) \<and> (code resp = 404 \<or> code resp = 500) \<and> \<not> is2xx (code resp)"
  using assms
  by (auto simp: refreshFromRemote_def indicatesSuccess_def parseFailure_def json_fail_def is2xx_def
           split: sum.splits)

theorem refresh_failure_changes_nothing_witness:
  "refreshFromRemote demoLib demoEnv demoStore RequestError
     = (demoStore, Some (json_fail 500 ''Failed to fetch shop data from main server''))
   \<and> refreshFromRemote demoLib demoEnv demoStore (Replied 200 None)
     = (demoStore, Some (json_fail 500 ''Failed to parse shop data''))
   \<and> \<not> indicatesSuccess (JObj [(''success'', JBool False)])
   \<and> refreshFromRemote demoLib demoEnv demoStore (Replied 200 (Some (JObj [(''success'', JBool False)])))
     = (demoStore, Some (json_fail 404 ''Shop data not found''))"
proof -
  have n: "\<not> indicatesSuccess (JObj [(''success'', JBool False)])"
    by (simp add: indicatesSuccess_def)
  from refresh_failure_changes_nothing[of RequestError 200 "JNull" demoLib demoEnv demoStore]
  have "refreshFromRemote demoLib demoEnv demoStore RequestError
     = (demoStore, Some (json_fail 500 ''Failed to fetch shop data from main server''))"
    by (simp add: refreshFromRemote_def)
  moreover from refresh_failure_changes_nothing[of "Replied 200 None" 200 "JNull" demoLib demoEnv demoStore]
  have "refreshFromRemote demoLib demoEnv demoStore (Replied 200 None)
     = (demoStore, Some (json_fail 500 ''Failed to parse shop data''))"
    by (simp add: refreshFromRemote_def parseFailure_def)
  moreover from refresh_failure_changes_nothing[of "Replied 200 (Some (JObj [(''success'', JBool False)]))"
      200 "JObj [(''success'', JBool False)]" demoLib demoEnv demoStore] n
  have "refreshFromRemote demoLib demoEnv demoStore (Replied 200 (Some (JObj [(''success'', JBool False)])))
     = (demoStore, Some (json_fail 404 ''Shop data not found''))"
    by (simp add: refreshFromRemote_def)
  ultimately show ?thesis using n by simp
qed

subsection \<open>The refresher: the mapping of the remote items\<close>








subsection \<open>The refresher: the saves\<close>



declare saveAll.simps(2) [simp del]







subsection \<open>The refresher: a save that is rejected\<close>





subsection \<open>The refresher: names, prices and categories\<close>




end
